theory Spec2Isabelle
  imports Complex_Main "HOL-Library.Sublist" "HOL-Library.Word"
begin

section \<open>JavaScript values\<close>

text \<open>
  The repository is three Node.js command line programs: the Play CLI built on
  commander and googleapis (\<^verbatim>\<open>src/unnamed/part_002\<close>), the dependency-free Play CLI
  (\<^verbatim>\<open>src/unnamed/part_003\<close>) and the GitHub wrapper (\<^verbatim>\<open>src/bin/psc-gh.mjs\<close>).

  A JavaScript string is a sequence of UTF-16 code units and \<^verbatim>\<open>length\<close>,
  \<^verbatim>\<open>slice\<close>, \<^verbatim>\<open>split\<close> and \<^verbatim>\<open>trim\<close> work on code units. Strings are
  modelled as \<^typ>\<open>string\<close>, one \<^typ>\<open>char\<close> per code unit, which covers the code
  units below 256.

  A finite double is a rational number; comparisons between doubles are exact, so
  they are comparisons of rationals. What depends on rounding (reading a number
  from a string, printing one) belongs to the engine and is a field of \<open>host\<close>.
\<close>

datatype jsnum = NaN | PosInf | NegInf | Fin rat

datatype js =
    JUndefined
  | JNull
  | JBool bool
  | JNum jsnum
  | JStr string
  | JArr "js list"
  | JObj "(string \<times> js) list"

text \<open>
  \<open>JObj\<close> lists the own enumerable properties in the order \<^verbatim>\<open>Object.entries\<close>
  reports them; a property read takes the first binding of the key.
\<close>

text \<open>
  The messages of the Play CLI's \<^verbatim>\<open>CliError\<close> and of the GitHub wrapper are Korean
  text; each is a constructor of \<open>cli_message\<close>, named after what it reports and
  carrying the value the message embeds. \<open>Error\<close> carries an English message as
  written in the source. \<open>Rejected\<close> is a promise of a library rejected with a
  reason of the library's own (a transport failure, a non-2xx answer of googleapis).
\<close>

datatype cli_message =
    PackageNameNotFound
  | InlineJsonInvalid
  | CredentialsNotFound
  | CredentialsFileMissing string
  | CredentialsFileParseFailed string
  | CredentialsShapeInvalid
  | CredentialsFieldsMissing
  | InvalidVersionCode string
  | VersionCodeRequired
  | UserFractionOutOfRange
  | UserFractionRequired
  | UpdatePriorityOutOfRange
  | NotesFileMissing string
  | NotesFileParseFailed string
  | NotesArrayEntryIncomplete
  | NotesObjectEmpty
  | NotesShapeInvalid
  | InvalidReleaseStatus js
  | AabRequired
  | AabFileMissing string
  | AabNotAFile string
  | EditIdMissing
  | UploadVersionCodeMissing
  | AccessTokenFailed
  | TokenIssueFailed nat
  | TokenResponseAbnormal

datatype error =
    CliError cli_message
  | Error string
  | TypeError
  | SyntaxError
  | HttpError nat
  | Rejected string

text \<open>
  What the programs take from the engine and from Node's libraries: the conversions
  between numbers and strings, \<^verbatim>\<open>JSON.parse\<close> (\<open>None\<close> when it throws),
  \<^verbatim>\<open>JSON.stringify\<close> (\<open>None\<close> when it throws), \<^verbatim>\<open>path.resolve\<close>, and
  \<^verbatim>\<open>createSign('RSA-SHA256')\<close> followed by \<^verbatim>\<open>sign(pem)\<close> (\<open>None\<close> when the key is
  refused).
\<close>

record host =
  StringToNumber :: "string \<Rightarrow> jsnum"
  NumberToString :: "rat \<Rightarrow> string"
  JSON_parse :: "string \<Rightarrow> js option"
  JSON_stringify :: "js \<Rightarrow> string option"
  path_resolve :: "string \<Rightarrow> string"
  rsa_sha256_sign :: "string \<Rightarrow> string \<Rightarrow> 8 word list option"

fun truthy :: "js \<Rightarrow> bool" where
  "truthy JUndefined = False"
| "truthy JNull = False"
| "truthy (JBool b) = b"
| "truthy (JNum NaN) = False"
| "truthy (JNum (Fin q)) = (q \<noteq> 0)"
| "truthy (JNum _) = True"
| "truthy (JStr s) = (s \<noteq> [])"
| "truthy (JArr _) = True"
| "truthy (JObj _) = True"

fun is_string :: "js \<Rightarrow> bool" where
  "is_string (JStr _) = True"
| "is_string _ = False"

text \<open>\<^verbatim>\<open>typeof v === 'object'\<close>, which holds of \<^verbatim>\<open>null\<close> too.\<close>

fun typeof_object :: "js \<Rightarrow> bool" where
  "typeof_object JNull = True"
| "typeof_object (JArr _) = True"
| "typeof_object (JObj _) = True"
| "typeof_object _ = False"

fun join_with :: "string \<Rightarrow> string list \<Rightarrow> string" where
  "join_with sep [] = []"
| "join_with sep [x] = x"
| "join_with sep (x # y # ys) = x @ sep @ join_with sep (y # ys)"

text \<open>\<^verbatim>\<open>String(v)\<close>. An array joins its elements with commas, \<^verbatim>\<open>null\<close> and
  \<^verbatim>\<open>undefined\<close> elements as empty strings.\<close>

fun js_String :: "host \<Rightarrow> js \<Rightarrow> string" where
  "js_String h JUndefined = ''undefined''"
| "js_String h JNull = ''null''"
| "js_String h (JBool b) = (if b then ''true'' else ''false'')"
| "js_String h (JNum NaN) = ''NaN''"
| "js_String h (JNum PosInf) = ''Infinity''"
| "js_String h (JNum NegInf) = ''-Infinity''"
| "js_String h (JNum (Fin q)) = NumberToString h q"
| "js_String h (JStr s) = s"
| "js_String h (JArr xs) =
     join_with '',''
       (map (\<lambda>x. if x = JUndefined \<or> x = JNull then [] else js_String h x) xs)"
| "js_String h (JObj kvs) = ''[object Object]''"

text \<open>\<^verbatim>\<open>Number(v)\<close>.\<close>

fun js_Number :: "host \<Rightarrow> js \<Rightarrow> jsnum" where
  "js_Number h JUndefined = NaN"
| "js_Number h JNull = Fin 0"
| "js_Number h (JBool b) = (if b then Fin 1 else Fin 0)"
| "js_Number h (JNum n) = n"
| "js_Number h (JStr s) = StringToNumber h s"
| "js_Number h (JArr xs) = StringToNumber h (js_String h (JArr xs))"
| "js_Number h (JObj kvs) = NaN"

text \<open>A property read \<^verbatim>\<open>v.key\<close> for a key that no prototype defines: a
  \<^verbatim>\<open>TypeError\<close> on \<^verbatim>\<open>null\<close> and \<^verbatim>\<open>undefined\<close>, the property's value on an object,
  \<^verbatim>\<open>undefined\<close> elsewhere.\<close>

fun js_get :: "js \<Rightarrow> string \<Rightarrow> error + js" where
  "js_get JUndefined k = Inl TypeError"
| "js_get JNull k = Inl TypeError"
| "js_get (JObj kvs) k = Inr (case map_of kvs k of None \<Rightarrow> JUndefined | Some v \<Rightarrow> v)"
| "js_get _ k = Inr JUndefined"

text \<open>The optional read \<^verbatim>\<open>v?.key\<close>.\<close>

fun js_get_opt :: "js \<Rightarrow> string \<Rightarrow> js" where
  "js_get_opt (JObj kvs) k = (case map_of kvs k of None \<Rightarrow> JUndefined | Some v \<Rightarrow> v)"
| "js_get_opt _ k = JUndefined"

subsection \<open>String operations\<close>

text \<open>The white space and line terminators \<^verbatim>\<open>trim\<close> removes, among the code
  units below 256: tab, line feed, vertical tab, form feed, carriage return, space
  and the no-break space.\<close>

definition is_js_space :: "char \<Rightarrow> bool" where
  "is_js_space c = (c \<in> {CHR 0x09, CHR 0x0A, CHR 0x0B, CHR 0x0C, CHR 0x0D, CHR 0x20, CHR 0xA0})"

definition js_trim :: "string \<Rightarrow> string" where
  "js_trim s = rev (dropWhile is_js_space (rev (dropWhile is_js_space s)))"

text \<open>\<^verbatim>\<open>toLowerCase\<close> on the code units below 256: the letters A to Z and the
  Latin-1 capitals (0xC0 to 0xDE without the multiplication sign 0xD7) move up by 32.\<close>

definition lower_char :: "char \<Rightarrow> char" where
  "lower_char c =
     (let n = (of_char c :: nat)
      in if (65 \<le> n \<and> n \<le> 90) \<or> (192 \<le> n \<and> n \<le> 222 \<and> n \<noteq> 215)
         then char_of (n + 32) else c)"

definition js_toLowerCase :: "string \<Rightarrow> string" where
  "js_toLowerCase s = map lower_char s"

text \<open>\<^verbatim>\<open>s.split(c)\<close> for a one-character separator: the pieces between the
  separators, one piece more than there are separators.\<close>

fun js_split :: "char \<Rightarrow> string \<Rightarrow> string list" where
  "js_split c [] = [[]]"
| "js_split c (x # xs) =
     (if x = c then [] # js_split c xs
      else (case js_split c xs of [] \<Rightarrow> [[x]] | p # ps \<Rightarrow> (x # p) # ps))"

text \<open>\<^verbatim>\<open>s.slice(0, n)\<close> and \<^verbatim>\<open>s.slice(-n)\<close> for a count \<open>n\<close>;
  \<^verbatim>\<open>s.slice(-0)\<close> is \<^verbatim>\<open>s.slice(0)\<close>, the whole string.\<close>

definition slice_prefix :: "nat \<Rightarrow> 'a list \<Rightarrow> 'a list" where
  "slice_prefix n s = take n s"

definition slice_suffix :: "nat \<Rightarrow> 'a list \<Rightarrow> 'a list" where
  "slice_suffix n s = (if n = 0 then s else drop (length s - n) s)"

section \<open>Secret masking\<close>

text \<open>\<^verbatim>\<open>maskValue(value, visiblePrefix = 8, visibleSuffix = 4)\<close> of the Play CLI,
  called with the counts 10 and 6.\<close>

definition maskValue :: "js \<Rightarrow> nat \<Rightarrow> nat \<Rightarrow> string" where
  "maskValue v visiblePrefix visibleSuffix =
     (if \<not> truthy v \<or> \<not> is_string v then ''(none)''
      else case v of
        JStr s \<Rightarrow>
          if length s \<le> visiblePrefix + visibleSuffix
          then replicate (length s) CHR ''*''
          else slice_prefix visiblePrefix s @ ''...'' @ slice_suffix visibleSuffix s
      | _ \<Rightarrow> ''(none)'')"

text \<open>\<^verbatim>\<open>maskToken\<close> of the GitHub wrapper, applied to the \<^verbatim>\<open>token\<close> string of the
  issued installation token.\<close>

definition maskToken :: "string \<Rightarrow> string" where
  "maskToken token = slice_prefix 6 token @ ''...'' @ slice_suffix 4 token"

section \<open>Option parsing of the dependency-free CLI\<close>

text \<open>\<^verbatim>\<open>boolOpt(value, fallback = undefined)\<close>.\<close>

definition boolOpt :: "host \<Rightarrow> js \<Rightarrow> js \<Rightarrow> error + js" where
  "boolOpt h v fallback =
     (if v = JUndefined then Inr fallback
      else let s = js_trim (js_toLowerCase (js_String h v))
           in if s = ''1'' \<or> s = ''true'' then Inr (JBool True)
              else if s = ''0'' \<or> s = ''false'' then Inr (JBool False)
              else Inl (Error (''boolean parse failed: '' @ js_String h v)))"

section \<open>The process environment and the file system\<close>

text \<open>\<open>env\<close> is \<^verbatim>\<open>process.env\<close>; \<open>fs_exists\<close> is \<^verbatim>\<open>fs.existsSync\<close>;
  \<open>fs_read\<close> is \<^verbatim>\<open>readFileSync(path, 'utf8')\<close> and \<^verbatim>\<open>readFile(path, 'utf8')\<close>,
  \<open>None\<close> when they throw; \<open>fs_isFile\<close> is \<^verbatim>\<open>statSync(path).isFile()\<close>.\<close>

record world =
  env :: "string \<Rightarrow> string option"
  fs_exists :: "string \<Rightarrow> bool"
  fs_read :: "string \<Rightarrow> string option"
  fs_isFile :: "string \<Rightarrow> bool"

definition env_js :: "world \<Rightarrow> string \<Rightarrow> js" where
  "env_js w k = (case env w k of None \<Rightarrow> JUndefined | Some s \<Rightarrow> JStr s)"

text \<open>The options object of either argument parser: \<^verbatim>\<open>undefined\<close> for an option
  that was not given.\<close>

type_synonym options = "string \<Rightarrow> js"

text \<open>The optional read \<^verbatim>\<open>v?.length\<close>.\<close>

definition js_length :: "js \<Rightarrow> js" where
  "js_length v =
     (case v of
        JStr s \<Rightarrow> JNum (Fin (of_nat (length s)))
      | JArr xs \<Rightarrow> JNum (Fin (of_nat (length xs)))
      | JObj kvs \<Rightarrow> js_get_opt v ''length''
      | _ \<Rightarrow> JUndefined)"

text \<open>\<^verbatim>\<open>a || b\<close> and \<^verbatim>\<open>a ?? b\<close> on values.\<close>

definition js_or :: "js \<Rightarrow> js \<Rightarrow> js" where
  "js_or a b = (if truthy a then a else b)"

definition js_nullish :: "js \<Rightarrow> js \<Rightarrow> js" where
  "js_nullish a b = (if a = JUndefined \<or> a = JNull then b else a)"

section \<open>Version codes\<close>

definition is_digit :: "char \<Rightarrow> bool" where
  "is_digit c = (c \<in> set ''0123456789'')"











section \<open>Releases\<close>

text \<open>The release object sent in a track update. A field the source leaves out of
  the object is \<open>None\<close>. A note is the pair of its \<^verbatim>\<open>language\<close> and \<^verbatim>\<open>text\<close>.\<close>

record release =
  status :: js
  versionCodes :: "string list"
  name :: "js option"
  releaseNotes :: "(js \<times> js) list option"
  userFraction :: "jsnum option"
  inAppUpdatePriority :: "jsnum option"

definition parseUserFraction :: "host \<Rightarrow> js \<Rightarrow> error + jsnum option" where
  "parseUserFraction h raw =
     (if raw = JUndefined \<or> raw = JNull then Inr None
      else case js_Number h raw of
             Fin q \<Rightarrow>
               if q \<le> 0 \<or> q \<ge> 1 then Inl (CliError UserFractionOutOfRange)
               else Inr (Some (Fin q))
           | _ \<Rightarrow> Inl (CliError UserFractionOutOfRange))"

definition parseInAppUpdatePriority :: "host \<Rightarrow> js \<Rightarrow> error + jsnum option" where
  "parseInAppUpdatePriority h raw =
     (if raw = JUndefined \<or> raw = JNull then Inr None
      else case js_Number h raw of
             Fin q \<Rightarrow>
               if of_int \<lfloor>q\<rfloor> \<noteq> q \<or> q < 0 \<or> q > 5 then Inl (CliError UpdatePriorityOutOfRange)
               else Inr (Some (Fin q))
           | _ \<Rightarrow> Inl (CliError UpdatePriorityOutOfRange))"

text \<open>The two shapes of a release-notes file, after \<^verbatim>\<open>JSON.parse\<close>.\<close>

definition notes_of_array :: "js list \<Rightarrow> error + (js \<times> js) list" where
  "notes_of_array parsed =
     (let notes = map (\<lambda>entry. (js_get_opt entry ''language'', js_get_opt entry ''text'')) parsed
      in if list_ex (\<lambda>note. \<not> truthy (fst note) \<or> \<not> truthy (snd note)) notes
         then Inl (CliError NotesArrayEntryIncomplete)
         else Inr notes)"

definition notes_of_object :: "host \<Rightarrow> (string \<times> js) list \<Rightarrow> error + (js \<times> js) list" where
  "notes_of_object h parsed =
     (let notes = map (\<lambda>(language, text). (JStr language, JStr (js_String h text))) parsed
      in if length notes = 0 then Inl (CliError NotesObjectEmpty)
         else Inr notes)"

definition normalizeNotes :: "host \<Rightarrow> js \<Rightarrow> error + (js \<times> js) list" where
  "normalizeNotes h parsed =
     (case parsed of
        JArr entries \<Rightarrow> notes_of_array entries
      | JObj kvs \<Rightarrow> notes_of_object h kvs
      | _ \<Rightarrow> Inl (CliError NotesShapeInvalid))"

text \<open>\<^verbatim>\<open>loadReleaseNotes(filePath)\<close>; \<open>None\<close> is \<^verbatim>\<open>undefined\<close>. \<^verbatim>\<open>path.resolve\<close>
  throws a \<^verbatim>\<open>TypeError\<close> on an argument that is not a string.\<close>

definition loadReleaseNotes :: "host \<Rightarrow> world \<Rightarrow> js \<Rightarrow> error + (js \<times> js) list option" where
  "loadReleaseNotes h w filePath =
     (if \<not> truthy filePath then Inr None
      else case filePath of
        JStr p \<Rightarrow>
          (let resolvedPath = path_resolve h p
           in if \<not> fs_exists w resolvedPath then Inl (CliError (NotesFileMissing resolvedPath))
              else case Option.bind (fs_read w resolvedPath) (JSON_parse h) of
                     None \<Rightarrow> Inl (CliError (NotesFileParseFailed resolvedPath))
                   | Some parsed \<Rightarrow> map_sum id Some (normalizeNotes h parsed))
      | _ \<Rightarrow> Inl TypeError)"

definition allowedStatuses :: "js list" where
  "allowedStatuses = [JStr ''draft'', JStr ''inProgress'', JStr ''halted'', JStr ''completed'']"

definition buildReleaseFromOptions ::
    "host \<Rightarrow> world \<Rightarrow> options \<Rightarrow> string list \<Rightarrow> error + release" where
  "buildReleaseFromOptions h w opts vcs =
     (let st = js_or (opts ''status'') (JStr ''completed'')
      in if st \<notin> set allowedStatuses then Inl (CliError (InvalidReleaseStatus st))
         else (case parseUserFraction h (opts ''userFraction'') of
           Inl e \<Rightarrow> Inl e
         | Inr uf \<Rightarrow>
             if st = JStr ''inProgress'' \<and> uf = None then Inl (CliError UserFractionRequired)
             else (case parseInAppUpdatePriority h (opts ''inAppUpdatePriority'') of
               Inl e \<Rightarrow> Inl e
             | Inr updatePriority \<Rightarrow>
                 (case loadReleaseNotes h w (opts ''releaseNotesFile'') of
                    Inl e \<Rightarrow> Inl e
                  | Inr notes \<Rightarrow>
                      Inr \<lparr> status = st, versionCodes = vcs,
                            name = (if truthy (opts ''releaseName'')
                                    then Some (opts ''releaseName'') else None),
                            releaseNotes = notes,
                            userFraction = uf,
                            inAppUpdatePriority = updatePriority \<rparr>))))"

section \<open>Remote calls\<close>

text \<open>
  The calls the programs make to other machines, each with the arguments the
  program chooses:
  \<^item> \<open>Authorize email key subject\<close>: \<^verbatim>\<open>auth.authorize()\<close> of the
    \<^verbatim>\<open>google.auth.JWT\<close> built from them;
  \<^item> \<open>EditsInsert packageName\<close>: \<^verbatim>\<open>edits.insert\<close>, \<^verbatim>\<open>POST .../edits\<close>;
  \<^item> \<open>BundlesUpload packageName editId aabPath\<close>: \<^verbatim>\<open>edits.bundles.upload\<close>,
    \<^verbatim>\<open>POST .../edits/{editId}/bundles?uploadType=media\<close>;
  \<^item> \<open>TracksGet packageName editId track\<close> and
    \<open>TracksUpdate packageName editId track release\<close>: \<^verbatim>\<open>GET\<close> and \<^verbatim>\<open>PUT\<close> of
    \<^verbatim>\<open>.../edits/{editId}/tracks/{track}\<close>;
  \<^item> \<open>EditsValidate packageName editId\<close>: \<^verbatim>\<open>POST .../edits/{editId}:validate\<close>;
  \<^item> \<open>EditsCommit packageName editId changesNotSentForReview\<close>:
    \<^verbatim>\<open>POST .../edits/{editId}:commit\<close>;
  \<^item> \<open>OAuthToken assertion\<close>: \<^verbatim>\<open>POST https://oauth2.googleapis.com/token\<close> with the
    JWT-bearer grant;
  \<^item> \<open>InstallationTokens installationId jwt\<close>:
    \<^verbatim>\<open>POST https://api.github.com/app/installations/{id}/access_tokens\<close>;
  \<^item> \<open>RunGh args token\<close>: the \<^verbatim>\<open>gh\<close> child process, with \<^verbatim>\<open>GH_TOKEN\<close> set.
\<close>

datatype call =
    Authorize js js js
  | EditsInsert js
  | BundlesUpload js js string
  | TracksGet js js js
  | TracksUpdate js js js release
  | EditsValidate js js
  | EditsCommit js js js
  | OAuthToken string
  | InstallationTokens string string
  | RunGh "string list" js

text \<open>What \<^verbatim>\<open>fetch\<close> resolves to: \<open>json_content\<close> says that the content type
  includes \<^verbatim>\<open>application/json\<close>, \<open>body_text\<close> is the body.\<close>

record response =
  ok :: bool
  http_status :: nat
  json_content :: bool
  body_text :: string

text \<open>
  An awaited call either rejects or resolves; the other side may answer from all it
  has seen, so it is a function of the calls made so far and of the call. For the
  googleapis client the resolved value is the \<^verbatim>\<open>data\<close> of the response, for
  \<^verbatim>\<open>fetch\<close> it is the response.

  A computation takes the calls made so far and returns them, extended by its own,
  with its result: the error thrown, or the value.
\<close>

type_synonym 'r remote = "call list \<Rightarrow> call \<Rightarrow> error + 'r"

type_synonym 'a io = "call list \<Rightarrow> call list \<times> (error + 'a)"

definition io_pure :: "'a \<Rightarrow> 'a io" where
  "io_pure x = (\<lambda>tr. (tr, Inr x))"

definition io_throw :: "error \<Rightarrow> 'a io" where
  "io_throw e = (\<lambda>tr. (tr, Inl e))"

definition io_lift :: "error + 'a \<Rightarrow> 'a io" where
  "io_lift r = (\<lambda>tr. (tr, r))"

definition io_bind :: "'a io \<Rightarrow> ('a \<Rightarrow> 'b io) \<Rightarrow> 'b io" where
  "io_bind m f = (\<lambda>tr. case m tr of (tr', Inl e) \<Rightarrow> (tr', Inl e) | (tr', Inr x) \<Rightarrow> f x tr')"

definition io_call :: "'r remote \<Rightarrow> call \<Rightarrow> 'r io" where
  "io_call rem c = (\<lambda>tr. (tr @ [c], rem tr c))"

section \<open>The Play CLI\<close>

subsection \<open>Credentials and context\<close>

definition validateServiceAccount :: "js \<Rightarrow> error + unit" where
  "validateServiceAccount creds =
     (if \<not> truthy creds \<or> \<not> typeof_object creds
      then Inl (CliError CredentialsShapeInvalid)
      else if \<not> truthy (js_get_opt creds ''client_email'')
            \<or> \<not> truthy (js_get_opt creds ''private_key'')
      then Inl (CliError CredentialsFieldsMissing)
      else Inr ())"

text \<open>\<^verbatim>\<open>loadServiceAccountCredentials(explicitPath)\<close> returns the credentials and
  their source.\<close>

definition loadServiceAccountCredentials :: "host \<Rightarrow> world \<Rightarrow> js \<Rightarrow> error + js \<times> string" where
  "loadServiceAccountCredentials h w explicitPath =
     (let rawJson = env_js w ''PSC_SERVICE_ACCOUNT_JSON''
      in if truthy rawJson then
           (case JSON_parse h (js_String h rawJson) of
              None \<Rightarrow> Inl (CliError InlineJsonInvalid)
            | Some parsed \<Rightarrow>
                (case validateServiceAccount parsed of
                   Inl e \<Rightarrow> Inl e
                 | Inr _ \<Rightarrow> Inr (parsed, ''PSC_SERVICE_ACCOUNT_JSON'')))
         else
           (let credentialsPath =
                  js_or (js_or explicitPath (env_js w ''PSC_SERVICE_ACCOUNT_JSON_PATH''))
                    (env_js w ''GOOGLE_APPLICATION_CREDENTIALS'')
            in if \<not> truthy credentialsPath then Inl (CliError CredentialsNotFound)
               else (case credentialsPath of
                  JStr p \<Rightarrow>
                    (let resolvedPath = path_resolve h p
                     in if \<not> fs_exists w resolvedPath
                        then Inl (CliError (CredentialsFileMissing resolvedPath))
                        else (case Option.bind (fs_read w resolvedPath) (JSON_parse h) of
                           None \<Rightarrow> Inl (CliError (CredentialsFileParseFailed resolvedPath))
                         | Some parsed \<Rightarrow>
                             (case validateServiceAccount parsed of
                                Inl e \<Rightarrow> Inl e
                              | Inr _ \<Rightarrow> Inr (parsed, resolvedPath))))
                | _ \<Rightarrow> Inl TypeError)))"

definition resolvePackageName :: "world \<Rightarrow> js \<Rightarrow> error + js" where
  "resolvePackageName w candidate =
     (let packageName = js_or candidate (env_js w ''PSC_PACKAGE_NAME'')
      in if \<not> truthy packageName then Inl (CliError PackageNameNotFound)
         else Inr packageName)"

record cli_context =
  credentials :: js
  credentialsSource :: string
  packageName :: js

text \<open>\<^verbatim>\<open>createContext(options, requirePackage)\<close>: the credentials are loaded, the
  client is authorized, and only then the package name is resolved.\<close>

definition createContext :: "host \<Rightarrow> world \<Rightarrow> js remote \<Rightarrow> options \<Rightarrow> bool \<Rightarrow> cli_context io" where
  "createContext h w api opts requirePackage =
     io_bind (io_lift (loadServiceAccountCredentials h w (opts ''credentials''))) (\<lambda>(creds, source).
     io_bind (io_call api
        (Authorize (js_get_opt creds ''client_email'') (js_get_opt creds ''private_key'')
           (js_or (js_or (opts ''subject'') (env_js w ''PSC_IMPERSONATE_SUBJECT'')) JUndefined)))
       (\<lambda>_.
     io_bind (io_lift
        (if requirePackage then resolvePackageName w (opts ''packageName'')
         else Inr (js_or (js_or (opts ''packageName'') (env_js w ''PSC_PACKAGE_NAME'')) JNull)))
       (\<lambda>pkg.
     io_pure \<lparr> credentials = creds, credentialsSource = source, packageName = pkg \<rparr>)))"

definition ensureAabFile :: "host \<Rightarrow> world \<Rightarrow> js \<Rightarrow> error + string" where
  "ensureAabFile h w aabPath =
     (if \<not> truthy aabPath then Inl (CliError AabRequired)
      else (case aabPath of
         JStr p \<Rightarrow>
           (let resolvedPath = path_resolve h p
            in if \<not> fs_exists w resolvedPath then Inl (CliError (AabFileMissing resolvedPath))
               else if \<not> fs_isFile w resolvedPath then Inl (CliError (AabNotAFile resolvedPath))
               else Inr resolvedPath)
       | _ \<Rightarrow> Inl TypeError))"

subsection \<open>The actions\<close>


text \<open>The action of \<^verbatim>\<open>publish submit\<close>. The count of the track's releases is
  printed when it is truthy.\<close>

definition publish_submit_action :: "host \<Rightarrow> world \<Rightarrow> js remote \<Rightarrow> options \<Rightarrow> js io" where
  "publish_submit_action h w api opts =
     io_bind (createContext h w api opts True) (\<lambda>ctx.
     io_bind (io_lift (ensureAabFile h w (opts ''aab''))) (\<lambda>aabPath.
     io_bind (io_call api (EditsInsert (packageName ctx))) (\<lambda>createData.
     io_bind (io_lift (js_get createData ''id'')) (\<lambda>editId.
     if \<not> truthy editId then io_throw (CliError EditIdMissing)
     else
     io_bind (io_call api (BundlesUpload (packageName ctx) editId aabPath)) (\<lambda>uploadData.
     io_bind (io_lift (js_get uploadData ''versionCode'')) (\<lambda>uploadedVersionCode.
     if \<not> truthy uploadedVersionCode then io_throw (CliError UploadVersionCodeMissing)
     else
     io_bind (io_lift (buildReleaseFromOptions h w opts [js_String h uploadedVersionCode]))
       (\<lambda>rel.
     io_bind (io_call api (TracksUpdate (packageName ctx) editId (opts ''track'') rel))
       (\<lambda>trackData.
     io_bind (io_call api (EditsValidate (packageName ctx) editId)) (\<lambda>_.
     io_bind (io_call api
        (EditsCommit (packageName ctx) editId (JBool (truthy (opts ''changesNotSentForReview'')))))
       (\<lambda>commitData.
     io_bind (io_lift (js_get commitData ''id'')) (\<lambda>commitId.
     io_pure (JObj
       ([(''packageName'', packageName ctx), (''editId'', editId), (''aabPath'', JStr aabPath),
        (''uploadedVersionCode'', uploadedVersionCode), (''track'', opts ''track''),
        (''releaseStatus'', status rel), (''validated'', JStr ''yes''),
        (''committed'', JStr ''yes''), (''committedEditId'', js_or commitId editId)]
       @ (if truthy (js_length (js_get_opt trackData ''releases''))
          then [(''trackReleases'', js_length (js_get_opt trackData ''releases''))]
          else []))))))))))))))"

section \<open>Base64url and the JWT builders\<close>

text \<open>\<^verbatim>\<open>Buffer.from(string)\<close> is the UTF-8 encoding of the string: one byte for a
  code unit below 128, two bytes for one from 128 to 255.\<close>

type_synonym byte = "8 word"

definition utf8_char :: "char \<Rightarrow> byte list" where
  "utf8_char c =
     (let n = (of_char c :: nat)
      in if n < 128 then [word_of_nat n]
         else [word_of_nat (192 + n div 64), word_of_nat (128 + n mod 64)])"

definition utf8_encode :: "string \<Rightarrow> byte list" where
  "utf8_encode s = concat (map utf8_char s)"

text \<open>\<^verbatim>\<open>toString('base64')\<close> of a buffer: three bytes become four characters of
  the alphabet, a last group of one or two bytes is padded with \<^verbatim>\<open>=\<close>.\<close>

definition b64_alphabet :: string where
  "b64_alphabet = ''ABCDEFGHIJKLMNOPQRSTUVWXYZabcdefghijklmnopqrstuvwxyz0123456789+/''"

definition b64_char :: "nat \<Rightarrow> char" where
  "b64_char i = b64_alphabet ! i"

fun base64 :: "byte list \<Rightarrow> string" where
  "base64 [] = []"
| "base64 [a] =
     [b64_char (unat a div 4), b64_char ((unat a mod 4) * 16), CHR ''='', CHR ''='']"
| "base64 [a, b] =
     [b64_char (unat a div 4), b64_char ((unat a mod 4) * 16 + unat b div 16),
      b64_char ((unat b mod 16) * 4), CHR ''='']"
| "base64 (a # b # c # rest) =
     [b64_char (unat a div 4), b64_char ((unat a mod 4) * 16 + unat b div 16),
      b64_char ((unat b mod 16) * 4 + unat c div 64), b64_char (unat c mod 64)]
     @ base64 rest"

text \<open>\<^verbatim>\<open>toBase64Url\<close>, the same function in both programs, after \<^verbatim>\<open>Buffer.from\<close>:
  \<^verbatim>\<open>replace(/\+/g, '-')\<close>, \<^verbatim>\<open>replace(/\//g, '_')\<close>, \<^verbatim>\<open>replace(/=+$/g, '')\<close>.\<close>

definition replace_char :: "char \<Rightarrow> char \<Rightarrow> string \<Rightarrow> string" where
  "replace_char a b s = map (\<lambda>c. if c = a then b else c) s"

definition strip_trailing :: "char \<Rightarrow> string \<Rightarrow> string" where
  "strip_trailing a s = rev (dropWhile (\<lambda>c. c = a) (rev s))"

definition toBase64Url :: "byte list \<Rightarrow> string" where
  "toBase64Url input =
     strip_trailing CHR ''=''
       (replace_char CHR ''/'' CHR ''_'' (replace_char CHR ''+'' CHR ''-'' (base64 input)))"

text \<open>The decoder of the claim, which the programs do not contain: the inverse
  alphabet of RFC 4648 section 5, four characters to three bytes, a last group of
  two or three characters to one or two bytes.\<close>

definition b64url_alphabet :: string where
  "b64url_alphabet = ''ABCDEFGHIJKLMNOPQRSTUVWXYZabcdefghijklmnopqrstuvwxyz0123456789-_''"

fun index_of :: "'a \<Rightarrow> 'a list \<Rightarrow> nat option" where
  "index_of x [] = None"
| "index_of x (y # ys) = (if x = y then Some 0 else map_option Suc (index_of x ys))"

fun bytes_of_sextets :: "nat list \<Rightarrow> byte list option" where
  "bytes_of_sextets [] = Some []"
| "bytes_of_sextets [s0] = None"
| "bytes_of_sextets [s0, s1] = Some [word_of_nat (s0 * 4 + s1 div 16)]"
| "bytes_of_sextets [s0, s1, s2] =
     Some [word_of_nat (s0 * 4 + s1 div 16), word_of_nat ((s1 mod 16) * 16 + s2 div 4)]"
| "bytes_of_sextets (s0 # s1 # s2 # s3 # rest) =
     map_option
       (\<lambda>bs. [word_of_nat (s0 * 4 + s1 div 16), word_of_nat ((s1 mod 16) * 16 + s2 div 4),
              word_of_nat ((s2 mod 4) * 64 + s3)] @ bs)
       (bytes_of_sextets rest)"

fun those_list :: "'a option list \<Rightarrow> 'a list option" where
  "those_list [] = Some []"
| "those_list (None # xs) = None"
| "those_list (Some x # xs) = map_option (\<lambda>ys. x # ys) (those_list xs)"

definition base64url_decode :: "string \<Rightarrow> byte list option" where
  "base64url_decode s =
     Option.bind (those_list (map (\<lambda>c. index_of c b64url_alphabet) s)) bytes_of_sextets"

text \<open>\<^verbatim>\<open>buildJwt({ header, payload, privateKeyPem })\<close> of the dependency-free CLI.
  \<^verbatim>\<open>JSON.stringify\<close> throws, or returns \<^verbatim>\<open>undefined\<close> on which \<^verbatim>\<open>Buffer.from\<close>
  throws; \<^verbatim>\<open>signer.update\<close> takes the signing input as a string.\<close>

definition buildJwt :: "host \<Rightarrow> js \<Rightarrow> js \<Rightarrow> string \<Rightarrow> error + string" where
  "buildJwt h header payload privateKeyPem =
     (case JSON_stringify h header of
        None \<Rightarrow> Inl TypeError
      | Some headerJson \<Rightarrow>
          (case JSON_stringify h payload of
             None \<Rightarrow> Inl TypeError
           | Some payloadJson \<Rightarrow>
               (let encodedHeader = toBase64Url (utf8_encode headerJson);
                    encodedPayload = toBase64Url (utf8_encode payloadJson);
                    signingInput = encodedHeader @ ''.'' @ encodedPayload
                in case rsa_sha256_sign h privateKeyPem signingInput of
                     None \<Rightarrow> Inl (Rejected ''sign'')
                   | Some signature \<Rightarrow> Inr (signingInput @ ''.'' @ toBase64Url signature))))"

text \<open>\<^verbatim>\<open>signJwt({ appId, privateKeyPem })\<close> of the GitHub wrapper; \<open>now\<close> is
  \<^verbatim>\<open>Math.floor(Date.now() / 1000)\<close>.\<close>

definition signJwt :: "host \<Rightarrow> int \<Rightarrow> string \<Rightarrow> string \<Rightarrow> error + string" where
  "signJwt h now appId privateKeyPem =
     (let header = JObj [(''alg'', JStr ''RS256''), (''typ'', JStr ''JWT'')];
          payload = JObj [(''iat'', JNum (Fin (of_int (now - 60)))),
                          (''exp'', JNum (Fin (of_int (now + 540)))),
                          (''iss'', JNum (js_Number h (JStr appId)))]
      in case JSON_stringify h header of
           None \<Rightarrow> Inl TypeError
         | Some headerJson \<Rightarrow>
             (case JSON_stringify h payload of
                None \<Rightarrow> Inl TypeError
              | Some payloadJson \<Rightarrow>
                  (let encodedHeader = toBase64Url (utf8_encode headerJson);
                       encodedPayload = toBase64Url (utf8_encode payloadJson);
                       unsignedToken = encodedHeader @ ''.'' @ encodedPayload
                   in case rsa_sha256_sign h privateKeyPem unsignedToken of
                        None \<Rightarrow> Inl (Rejected ''sign'')
                      | Some signature \<Rightarrow> Inr (unsignedToken @ ''.'' @ toBase64Url signature))))"

section \<open>The dependency-free CLI\<close>

text \<open>\<^verbatim>\<open>required(options, key, envKey)\<close>; \<open>envKey\<close> is \<open>None\<close> where the call
  gives none.\<close>

definition required :: "host \<Rightarrow> world \<Rightarrow> options \<Rightarrow> string \<Rightarrow> string option \<Rightarrow> error + string" where
  "required h w opts key envKey =
     (let v = js_nullish (opts key)
                (case envKey of Some k \<Rightarrow> env_js w k | None \<Rightarrow> JUndefined)
      in if \<not> truthy v \<or> length (js_trim (js_String h v)) = 0
         then Inl (Error (''missing required option: --'' @ key @
                 (case envKey of Some k \<Rightarrow> '' or '' @ k | None \<Rightarrow> [])))
         else Inr (js_trim (js_String h v)))"

text \<open>\<^verbatim>\<open>normalizePrivateKey(raw)\<close> replaces each backslash followed by \<^verbatim>\<open>n\<close> by a
  line feed. On a value that is not a string either \<^verbatim>\<open>raw.includes\<close> or the
  signing that follows throws.\<close>

fun unescape_newlines :: "string \<Rightarrow> string" where
  "unescape_newlines (a # b # cs) =
     (if a = CHR 0x5C \<and> b = CHR ''n'' then CHR 0x0A # unescape_newlines cs
      else a # unescape_newlines (b # cs))"
| "unescape_newlines cs = cs"

definition normalizePrivateKey :: "js \<Rightarrow> error + string" where
  "normalizePrivateKey raw = (case raw of JStr s \<Rightarrow> Inr (unescape_newlines s) | _ \<Rightarrow> Inl TypeError)"

definition readServiceAccount :: "host \<Rightarrow> world \<Rightarrow> options \<Rightarrow> error + js" where
  "readServiceAccount h w opts =
     (let fromFile = js_nullish (opts ''service-account-json'')
                       (env_js w ''PLAY_SERVICE_ACCOUNT_JSON_PATH'')
      in if truthy fromFile then
           (case fs_read w (path_resolve h (js_String h fromFile)) of
              None \<Rightarrow> Inl (Rejected ''readFile'')
            | Some raw \<Rightarrow>
                (case JSON_parse h raw of None \<Rightarrow> Inl SyntaxError | Some sa \<Rightarrow> Inr sa))
         else
           (let inline = js_nullish (opts ''service-account-json-inline'')
                           (env_js w ''PLAY_SERVICE_ACCOUNT_JSON'')
            in if truthy inline then
                 (case JSON_parse h (js_String h inline) of
                    None \<Rightarrow> Inl SyntaxError
                  | Some sa \<Rightarrow> Inr sa)
               else Inl (Error
                 ''service account JSON is required: --service-account-json or PLAY_SERVICE_ACCOUNT_JSON_PATH'')))"

definition PLAY_SCOPE :: string where
  "PLAY_SCOPE = ''https://www.googleapis.com/auth/androidpublisher''"

text \<open>\<^verbatim>\<open>exchangeAccessToken(serviceAccount)\<close>; \<open>now\<close> is
  \<^verbatim>\<open>Math.floor(Date.now() / 1000)\<close>.\<close>

definition exchangeAccessToken :: "host \<Rightarrow> response remote \<Rightarrow> int \<Rightarrow> js \<Rightarrow> js io" where
  "exchangeAccessToken h fetch now serviceAccount =
     io_bind (io_lift (js_get serviceAccount ''client_email'')) (\<lambda>client_email.
     io_bind (io_lift (js_get serviceAccount ''private_key'')) (\<lambda>private_key.
     io_bind (io_lift (normalizePrivateKey private_key)) (\<lambda>privateKeyPem.
     io_bind (io_lift (buildJwt h
        (JObj [(''alg'', JStr ''RS256''), (''typ'', JStr ''JWT'')])
        (JObj [(''iss'', client_email), (''scope'', JStr PLAY_SCOPE),
               (''aud'', JStr ''https://oauth2.googleapis.com/token''),
               (''iat'', JNum (Fin (of_int now))), (''exp'', JNum (Fin (of_int (now + 3600))))])
        privateKeyPem)) (\<lambda>assertion.
     io_bind (io_call fetch (OAuthToken assertion)) (\<lambda>res.
     if \<not> ok res then io_throw (HttpError (http_status res))
     else (case JSON_parse h (body_text res) of
             None \<Rightarrow> io_throw SyntaxError
           | Some body \<Rightarrow> io_pure body))))))"

text \<open>The first lines of \<^verbatim>\<open>main\<close> after the help: the service account is read,
  the token is exchanged, and \<^verbatim>\<open>access_token\<close> is required of the result.\<close>

definition obtainAccessToken ::
    "host \<Rightarrow> world \<Rightarrow> response remote \<Rightarrow> int \<Rightarrow> options \<Rightarrow> (js \<times> js) io" where
  "obtainAccessToken h w fetch now opts =
     io_bind (io_lift (readServiceAccount h w opts)) (\<lambda>serviceAccount.
     io_bind (exchangeAccessToken h fetch now serviceAccount) (\<lambda>tokenResult.
     io_bind (io_lift (js_get tokenResult ''access_token'')) (\<lambda>accessToken.
     if \<not> truthy accessToken then io_throw (Error ''could not obtain access token'')
     else io_pure (tokenResult, accessToken))))"

text \<open>\<^verbatim>\<open>jsonRequest(url, init)\<close>: the body is read, as JSON when the content type
  says so, before the status is looked at.\<close>

definition jsonRequest :: "host \<Rightarrow> response remote \<Rightarrow> call \<Rightarrow> js io" where
  "jsonRequest h fetch c =
     io_bind (io_call fetch c) (\<lambda>res.
     io_bind (io_lift
        (if json_content res
         then (case JSON_parse h (body_text res) of None \<Rightarrow> Inl SyntaxError | Some b \<Rightarrow> Inr b)
         else Inr (JStr (body_text res)))) (\<lambda>body.
     if \<not> ok res then io_throw (HttpError (http_status res))
     else io_pure body))"

text \<open>\<^verbatim>\<open>bundlesUpload\<close> reads the file before it sends it.\<close>

definition bundlesUpload :: "host \<Rightarrow> world \<Rightarrow> response remote \<Rightarrow> js \<Rightarrow> js \<Rightarrow> string \<Rightarrow> js io" where
  "bundlesUpload h w fetch pkg editId aabPath =
     (case fs_read w (path_resolve h aabPath) of
        None \<Rightarrow> io_throw (Rejected ''readFile'')
      | Some buffer \<Rightarrow> jsonRequest h fetch (BundlesUpload pkg editId aabPath))"

text \<open>\<^verbatim>\<open>tracksUpdate\<close>; \<open>None\<close> is an \<^verbatim>\<open>undefined\<close> number.\<close>

definition tracksUpdate ::
    "host \<Rightarrow> response remote \<Rightarrow> js \<Rightarrow> js \<Rightarrow> js \<Rightarrow> js list \<Rightarrow> js \<Rightarrow> js \<Rightarrow> js
      \<Rightarrow> jsnum option \<Rightarrow> jsnum option \<Rightarrow> js io" where
  "tracksUpdate h fetch pkg editId track vcs st releaseName notes fraction priority =
     jsonRequest h fetch (TracksUpdate pkg editId track
       \<lparr> status = st, versionCodes = map (js_String h) vcs,
         name = (if truthy releaseName then Some releaseName else None),
         releaseNotes = (if truthy notes then Some [(JStr ''ko-KR'', notes)] else None),
         userFraction = fraction,
         inAppUpdatePriority = priority \<rparr>)"

text \<open>The option reads shared by the \<^verbatim>\<open>tracks update\<close> and \<^verbatim>\<open>publish submit\<close>
  branches of \<^verbatim>\<open>main\<close>.\<close>

definition string_option :: "host \<Rightarrow> options \<Rightarrow> string \<Rightarrow> js" where
  "string_option h opts k = (if truthy (opts k) then JStr (js_String h (opts k)) else JUndefined)"

definition number_option :: "host \<Rightarrow> options \<Rightarrow> string \<Rightarrow> jsnum option" where
  "number_option h opts k = (if truthy (opts k) then Some (js_Number h (opts k)) else None)"


text \<open>The \<^verbatim>\<open>publish submit\<close> branch of \<^verbatim>\<open>main\<close>. Its value is the printed
  object.\<close>

definition lite_publish_submit ::
    "host \<Rightarrow> world \<Rightarrow> response remote \<Rightarrow> int \<Rightarrow> options \<Rightarrow> js io" where
  "lite_publish_submit h w fetch now opts =
     io_bind (obtainAccessToken h w fetch now opts) (\<lambda>(tokenResult, accessToken).
     io_bind (io_lift (required h w opts ''package-name'' (Some ''PLAY_PACKAGE_NAME''))) (\<lambda>pkg.
     io_bind (io_lift (required h w opts ''aab'' None)) (\<lambda>aabPath.
     io_bind (io_lift (boolOpt h (opts ''changes-not-sent-for-review'') JUndefined))
       (\<lambda>changesNotSentForReview.
     io_bind (jsonRequest h fetch (EditsInsert (JStr pkg))) (\<lambda>edit.
     io_bind (io_lift (js_get edit ''id'')) (\<lambda>editId.
     if \<not> truthy editId then io_throw (Error ''edit create failed: missing editId'')
     else
     io_bind (bundlesUpload h w fetch (JStr pkg) editId aabPath) (\<lambda>uploaded.
     io_bind (io_lift (js_get uploaded ''versionCode'')) (\<lambda>versionCode.
     if \<not> truthy versionCode then io_throw (Error ''bundle upload failed: missing versionCode'')
     else
     io_bind (tracksUpdate h fetch (JStr pkg) editId
        (if truthy (opts ''track'') then JStr (js_String h (opts ''track'')) else JStr ''internal'')
        [versionCode]
        (if truthy (opts ''status'') then JStr (js_String h (opts ''status''))
         else JStr ''completed'')
        (string_option h opts ''release-name'')
        (string_option h opts ''release-notes'')
        (number_option h opts ''user-fraction'')
        (number_option h opts ''in-app-update-priority'')) (\<lambda>trackResult.
     io_bind (jsonRequest h fetch (EditsValidate (JStr pkg) editId)) (\<lambda>validateResult.
     io_bind (jsonRequest h fetch (EditsCommit (JStr pkg) editId changesNotSentForReview))
       (\<lambda>commitResult.
     io_pure (JObj [(''editId'', editId), (''upload'', uploaded), (''track'', trackResult),
                    (''validate'', validateResult), (''commit'', commitResult)]))))))))))))"

section \<open>The GitHub wrapper\<close>

definition issueInstallationToken ::
    "host \<Rightarrow> response remote \<Rightarrow> int \<Rightarrow> string \<Rightarrow> string \<Rightarrow> string \<Rightarrow> js io" where
  "issueInstallationToken h fetch now appId installationId privateKeyPem =
     io_bind (io_lift (signJwt h now appId privateKeyPem)) (\<lambda>jwt.
     io_bind (io_call fetch (InstallationTokens installationId jwt)) (\<lambda>res.
     (let body = (case JSON_parse h (body_text res) of None \<Rightarrow> JObj [] | Some b \<Rightarrow> b)
      in if \<not> ok res then io_throw (CliError (TokenIssueFailed (http_status res)))
         else io_bind (io_lift (js_get body ''token'')) (\<lambda>token.
              if \<not> truthy token then io_throw (CliError TokenResponseAbnormal)
              else io_pure body))))"

section \<open>The steps of a publish transaction\<close>

text \<open>The five calls of the publish flow, and the steps among the calls of a trace,
  in the order they were made. The other calls (authorization, token exchange,
  reading a track) are no steps.\<close>

datatype step = CreateEdit | UploadBundle | UpdateTrack | ValidateEdit | CommitEdit

fun step_of :: "call \<Rightarrow> step option" where
  "step_of (EditsInsert p) = Some CreateEdit"
| "step_of (BundlesUpload p e a) = Some UploadBundle"
| "step_of (TracksUpdate p e t r) = Some UpdateTrack"
| "step_of (EditsValidate p e) = Some ValidateEdit"
| "step_of (EditsCommit p e c) = Some CommitEdit"
| "step_of _ = None"

fun steps :: "call list \<Rightarrow> step list" where
  "steps [] = []"
| "steps (c # cs) = (case step_of c of None \<Rightarrow> steps cs | Some s \<Rightarrow> s # steps cs)"

definition publish_order :: "step list" where
  "publish_order = [CreateEdit, UploadBundle, UpdateTrack, ValidateEdit, CommitEdit]"

text \<open>The two forms of a release-notes file for a list of (language, text) pairs,
  as \<^verbatim>\<open>JSON.parse\<close> returns them: the array of \<^verbatim>\<open>{language, text}\<close> objects and
  the object from language to text.\<close>

definition array_form :: "(string \<times> string) list \<Rightarrow> js" where
  "array_form ps = JArr (map (\<lambda>(l, t). JObj [(''language'', JStr l), (''text'', JStr t)]) ps)"

text \<open>The object form goes through the engine's order of properties. An array index
  is the canonical numeric string of an integer from 0 to 4294967294: decimal digits
  only, no leading zero unless it is \<^verbatim>\<open>"0"\<close>.\<close>

definition index_value :: "string \<Rightarrow> int" where
  "index_value k = foldl (\<lambda>n c. 10 * n + (of_char c - 48)) 0 k"

definition is_array_index :: "string \<Rightarrow> bool" where
  "is_array_index k =
     (k \<noteq> [] \<and> list_all is_digit k \<and> (k = ''0'' \<or> hd k \<noteq> CHR ''0'')
      \<and> index_value k < 4294967295)"

text \<open>\<^verbatim>\<open>JSON.parse\<close> defines the members of an object in the order of the text; a
  repeated key keeps its first place and takes the last value.\<close>

fun define_property :: "string \<Rightarrow> 'a \<Rightarrow> (string \<times> 'a) list \<Rightarrow> (string \<times> 'a) list" where
  "define_property k v [] = [(k, v)]"
| "define_property k v ((k', v') # kvs) =
     (if k' = k then (k, v) # kvs else (k', v') # define_property k v kvs)"

definition created_properties :: "(string \<times> 'a) list \<Rightarrow> (string \<times> 'a) list" where
  "created_properties kvs = foldl (\<lambda>acc (k, v). define_property k v acc) [] kvs"

text \<open>\<^verbatim>\<open>Object.entries\<close> lists the own properties with the array indices first, in
  ascending numeric order, and then the other keys in the order of their
  creation.\<close>

definition property_order :: "(string \<times> 'a) list \<Rightarrow> (string \<times> 'a) list" where
  "property_order kvs =
     sort_key (\<lambda>kv. index_value (fst kv)) (filter (\<lambda>kv. is_array_index (fst kv)) kvs)
     @ filter (\<lambda>kv. \<not> is_array_index (fst kv)) kvs"

definition parsed_object :: "(string \<times> 'a) list \<Rightarrow> (string \<times> 'a) list" where
  "parsed_object kvs = property_order (created_properties kvs)"

text \<open>The object form of the pairs written in the file in the order \<open>ps\<close>, as
  \<^verbatim>\<open>Object.entries\<close> lists the parsed object.\<close>

definition object_form :: "(string \<times> string) list \<Rightarrow> js" where
  "object_form ps = JObj (map (\<lambda>(l, t). (l, JStr t)) (parsed_object ps))"

text \<open>A step's call fails when it rejects, or when the field the flow requires of
  its answer is absent: the \<^verbatim>\<open>id\<close> of the created edit, the \<^verbatim>\<open>versionCode\<close> of
  the uploaded bundle.\<close>

definition has_field :: "js \<Rightarrow> string \<Rightarrow> bool" where
  "has_field d k = (case js_get d k of Inl e \<Rightarrow> False | Inr v \<Rightarrow> truthy v)"

definition step_failed :: "call \<Rightarrow> error + js \<Rightarrow> bool" where
  "step_failed c r =
     (case r of
        Inl e \<Rightarrow> True
      | Inr d \<Rightarrow>
          (case step_of c of
             Some CreateEdit \<Rightarrow> \<not> has_field d ''id''
           | Some UploadBundle \<Rightarrow> \<not> has_field d ''versionCode''
           | _ \<Rightarrow> False))"

text \<open>The call at position \<open>i\<close> of a trace is a step that failed, given how the
  other side answers a call after the calls before it.\<close>

definition fails_at :: "js remote \<Rightarrow> call list \<Rightarrow> nat \<Rightarrow> bool" where
  "fails_at rem tr i =
     (step_of (tr ! i) \<noteq> None \<and> step_failed (tr ! i) (rem (take i tr) (tr ! i)))"

text \<open>A run, the calls made and the result, is sequential: its steps are an initial
  part of the publish order, so none is skipped, repeated or out of order; a run
  that succeeds has made all five; and a step that failed is the last call made,
  in a run that ends in failure.\<close>

definition sequential :: "js remote \<Rightarrow> call list \<times> (error + 'a) \<Rightarrow> bool" where
  "sequential rem run =
     (prefix (steps (fst run)) publish_order
      \<and> (\<not> isl (snd run) \<longrightarrow> steps (fst run) = publish_order)
      \<and> (\<forall>i < length (fst run).
            fails_at rem (fst run) i \<longrightarrow> Suc i = length (fst run) \<and> isl (snd run)))"

text \<open>A computation is quiet when it makes no step of the publish flow.\<close>

definition quiet :: "'a io \<Rightarrow> bool" where
  "quiet m = (\<forall>tr. steps (fst (m tr)) = steps tr)"

section \<open>The resolution order of the credential loader, as specified\<close>








text \<open>The six-bit groups of a byte sequence, the numbers behind the characters of
  its base64 text.\<close>

fun sextets :: "byte list \<Rightarrow> nat list" where
  "sextets [] = []"
| "sextets [a] = [unat a div 4, (unat a mod 4) * 16]"
| "sextets [a, b] =
     [unat a div 4, (unat a mod 4) * 16 + unat b div 16, (unat b mod 16) * 4]"
| "sextets (a # b # c # rest) =
     [unat a div 4, (unat a mod 4) * 16 + unat b div 16,
      (unat b mod 16) * 4 + unat c div 64, unat c mod 64] @ sextets rest"

fun padding :: "byte list \<Rightarrow> string" where
  "padding [] = []"
| "padding [a] = ''==''"
| "padding [a, b] = ''=''"
| "padding (a # b # c # rest) = padding rest"

text \<open>The two replacements of \<^verbatim>\<open>toBase64Url\<close> on one character.\<close>

definition url_of :: "char \<Rightarrow> char" where
  "url_of c = (if c = CHR ''+'' then CHR ''-'' else if c = CHR ''/'' then CHR ''_'' else c)"

section \<open>An example engine\<close>

text \<open>A host for the worked examples. It agrees with a real engine on the values
  the examples use: \<^verbatim>\<open>Number("0.1")\<close> is the double nearest to one tenth,
  \<^verbatim>\<open>String(42)\<close> is \<^verbatim>\<open>"42"\<close>, the JSON texts are parsed and printed as Node does,
  absolute paths resolve to themselves. The signature is a stand-in of three
  bytes.\<close>

definition example_header :: js where
  "example_header = JObj [(''alg'', JStr ''RS256''), (''typ'', JStr ''JWT'')]"

definition example_host :: host where
  "example_host =
     \<lparr> StringToNumber = (\<lambda>s. if s = ''0.1'' then Fin (3602879701896397 / 36028797018963968)
                             else if s = ''0'' then Fin 0
                             else if s = ''1'' then Fin 1
                             else if s = ''2913321'' then Fin 2913321
                             else NaN),
       NumberToString = (\<lambda>q. if q = 42 then ''42'' else ''0''),
       JSON_parse = (\<lambda>s. if s = ''{}'' then Some (JObj [])
                         else if s = ''[]'' then Some (JArr [])
                         else if s = ''{\"id\":\"E1\"}'' then Some (JObj [(''id'', JStr ''E1'')])
                         else if s = ''{\"versionCode\":42}''
                           then Some (JObj [(''versionCode'', JNum (Fin 42))])
                         else if s = ''{\"access_token\":\"\"}''
                           then Some (JObj [(''access_token'', JStr [])])
                         else if s = ''{\"access_token\":\"ya29.token\"}''
                           then Some (JObj [(''access_token'', JStr ''ya29.token'')])
                         else if s = ''{\"token\":\"ghs_0123456789abcdef\"}''
                           then Some (JObj [(''token'', JStr ''ghs_0123456789abcdef'')])
                         else if s = ''{\"token\":\"\"}'' then Some (JObj [(''token'', JStr [])])
                         else if s = ''{\"client_email\":\"a@b.c\",\"private_key\":\"k\"}''
                           then Some (JObj [(''client_email'', JStr ''a@b.c''),
                                            (''private_key'', JStr ''k'')])
                         else if s = ''{\"client_email\":\"x@y.z\",\"private_key\":\"p\"}''
                           then Some (JObj [(''client_email'', JStr ''x@y.z''),
                                            (''private_key'', JStr ''p'')])
                         else if s = ''{\"client_email\":\"a@b.c\"}''
                           then Some (JObj [(''client_email'', JStr ''a@b.c'')])
                         else if s = ''[{\"language\":\"en-US\",\"text\":\"Bug fixes\"}]''
                           then Some (JArr [JObj [(''language'', JStr ''en-US''),
                                                  (''text'', JStr ''Bug fixes'')]])
                         else if s = ''{\"en-US\":\"Bug fixes\"}''
                           then Some (JObj [(''en-US'', JStr ''Bug fixes'')])
                         else if s = ''[{\"language\":\"en-US\",\"text\":\"\"}]''
                           then Some (JArr [JObj [(''language'', JStr ''en-US''),
                                                  (''text'', JStr [])]])
                         else if s = ''{\"en-US\":\"\"}''
                           then Some (JObj [(''en-US'', JStr [])])
                         else if s = ''[{\"language\":\"2\",\"text\":\"two\"},{\"language\":\"1\",\"text\":\"one\"}]''
                           then Some (JArr [JObj [(''language'', JStr ''2''), (''text'', JStr ''two'')],
                                            JObj [(''language'', JStr ''1''), (''text'', JStr ''one'')]])
                         else if s = ''{\"2\":\"two\",\"1\":\"one\"}''
                           then Some (JObj [(''1'', JStr ''one''), (''2'', JStr ''two'')])
                         else None),
       JSON_stringify = (\<lambda>v. if v = example_header then Some ''{\"alg\":\"RS256\",\"typ\":\"JWT\"}''
                             else if v = JUndefined then None
                             else Some ''{}''),
       path_resolve = (\<lambda>p. p),
       rsa_sha256_sign = (\<lambda>pem input. if pem = [] then None else Some [1, 2, 3]) \<rparr>"

text \<open>A world for the examples: the inline credentials of either CLI are set, and
  a few files exist. The other side answers every call with success.\<close>

definition example_files :: "string \<Rightarrow> string option" where
  "example_files p =
     (if p = ''/app.aab'' then Some ''PK''
      else if p = ''/notes-array.json''
        then Some ''[{\"language\":\"en-US\",\"text\":\"Bug fixes\"}]''
      else if p = ''/notes-object.json'' then Some ''{\"en-US\":\"Bug fixes\"}''
      else if p = ''/empty-array.json'' then Some ''[]''
      else if p = ''/empty-object.json'' then Some ''{}''
      else if p = ''/blank-array.json'' then Some ''[{\"language\":\"en-US\",\"text\":\"\"}]''
      else if p = ''/blank-object.json'' then Some ''{\"en-US\":\"\"}''
      else if p = ''/index-array.json''
        then Some ''[{\"language\":\"2\",\"text\":\"two\"},{\"language\":\"1\",\"text\":\"one\"}]''
      else if p = ''/index-object.json'' then Some ''{\"2\":\"two\",\"1\":\"one\"}''
      else if p = ''/sa.json'' then Some ''{\"client_email\":\"x@y.z\",\"private_key\":\"p\"}''
      else if p = ''/broken.json'' then Some ''{''
      else None)"

definition example_world :: world where
  "example_world =
     \<lparr> env = (\<lambda>k. if k = ''PSC_SERVICE_ACCOUNT_JSON''
                   then Some ''{\"client_email\":\"a@b.c\",\"private_key\":\"k\"}''
                 else if k = ''PLAY_SERVICE_ACCOUNT_JSON''
                   then Some ''{\"client_email\":\"a@b.c\",\"private_key\":\"k\"}''
                 else None),
       fs_exists = (\<lambda>p. example_files p \<noteq> None),
       fs_read = example_files,
       fs_isFile = (\<lambda>p. example_files p \<noteq> None) \<rparr>"

definition example_reply :: "string \<Rightarrow> response" where
  "example_reply text = \<lparr> ok = True, http_status = 200, json_content = True, body_text = text \<rparr>"

definition example_fetch :: "response remote" where
  "example_fetch tr c =
     (case c of
        OAuthToken a \<Rightarrow> Inr (example_reply ''{\"access_token\":\"ya29.token\"}'')
      | EditsInsert p \<Rightarrow> Inr (example_reply ''{\"id\":\"E1\"}'')
      | BundlesUpload p e a \<Rightarrow> Inr (example_reply ''{\"versionCode\":42}'')
      | InstallationTokens i j \<Rightarrow> Inr (example_reply ''{\"token\":\"ghs_0123456789abcdef\"}'')
      | _ \<Rightarrow> Inr (example_reply ''{}''))"

definition example_api :: "js remote" where
  "example_api tr c =
     (case c of
        EditsInsert p \<Rightarrow> Inr (JObj [(''id'', JStr ''E1'')])
      | BundlesUpload p e a \<Rightarrow> Inr (JObj [(''versionCode'', JNum (Fin 42))])
      | _ \<Rightarrow> Inr (JObj []))"

text \<open>Options of the dependency-free CLI, as its argument parser names them.\<close>

definition lite_opts :: "js \<Rightarrow> js \<Rightarrow> js \<Rightarrow> options" where
  "lite_opts codes st fraction k =
     (if k = ''package-name'' then JStr ''com.example.app''
      else if k = ''edit-id'' then JStr ''E1''
      else if k = ''aab'' then JStr ''/app.aab''
      else if k = ''track'' then JStr ''internal''
      else if k = ''version-codes'' then codes
      else if k = ''status'' then st
      else if k = ''user-fraction'' then fraction
      else JUndefined)"

text \<open>Options of the Play CLI, as commander names them.\<close>

definition play_opts :: "js \<Rightarrow> js \<Rightarrow> js \<Rightarrow> options" where
  "play_opts versionCode st fraction k =
     (if k = ''packageName'' then JStr ''com.example.app''
      else if k = ''editId'' then JStr ''E1''
      else if k = ''aab'' then JStr ''/app.aab''
      else if k = ''track'' then JStr ''internal''
      else if k = ''versionCode'' then versionCode
      else if k = ''status'' then st
      else if k = ''userFraction'' then fraction
      else JUndefined)"

text \<open>The other side with one step out of order: the googleapis client rejects the
  step's call; \<^verbatim>\<open>fetch\<close> answers the creation of the edit with an object without
  \<^verbatim>\<open>id\<close>.\<close>

definition rejecting_api :: "step \<Rightarrow> js remote" where
  "rejecting_api s tr c =
     (if step_of c = Some s then Inl (Rejected ''unavailable'') else example_api tr c)"

definition forgetful_fetch :: "response remote" where
  "forgetful_fetch tr c =
     (case c of EditsInsert p \<Rightarrow> Inr (example_reply ''{}'') | _ \<Rightarrow> example_fetch tr c)"





text \<open>The other side answering the token requests with an empty token.\<close>

definition empty_token_fetch :: "response remote" where
  "empty_token_fetch tr c =
     (case c of
        OAuthToken a \<Rightarrow> Inr (example_reply ''{\"access_token\":\"\"}'')
      | InstallationTokens i j \<Rightarrow> Inr (example_reply ''{\"token\":\"\"}'')
      | _ \<Rightarrow> example_fetch tr c)"

definition no_options :: options where
  "no_options k = JUndefined"

definition example_assertion :: string where
  "example_assertion = ''eyJhbGciOiJSUzI1NiIsInR5cCI6IkpXVCJ9.e30.AQID''"

section \<open>Secret masking: properties\<close>

text \<open>
  C9. On every input that is not a non-empty string (\<^verbatim>\<open>null\<close>, \<^verbatim>\<open>undefined\<close>, the
  empty string, a value of another type) \<^verbatim>\<open>maskValue\<close> returns the literal
  \<^verbatim>\<open>(none)\<close>; it never throws, its result being a string on every input.
\<close>

theorem maskValue_none:
  "\<not> (\<exists>s. v = JStr s \<and> s \<noteq> []) \<Longrightarrow> maskValue v p q = ''(none)''"
  by (cases v) (auto simp: maskValue_def)

theorem maskValue_none_witness:
  "maskValue (JStr []) 8 4 = ''(none)'' \<and> maskValue JNull 8 4 = ''(none)''
   \<and> maskValue JUndefined 8 4 = ''(none)'' \<and> maskValue (JNum (Fin 12345678901234)) 8 4 = ''(none)''
   \<and> maskValue (JStr []) 8 4 \<noteq> replicate (length ([] :: string)) CHR ''*''"
  using maskValue_none [of "JStr []" 8 4] maskValue_none [of JNull 8 4]
    maskValue_none [of JUndefined 8 4] maskValue_none [of "JNum (Fin 12345678901234)" 8 4]
  by simp

text \<open>
  C1, as the code has it. For every non-empty secret string no longer than
  \<open>visiblePrefix + visibleSuffix\<close>, \<^verbatim>\<open>maskValue\<close> returns a string of the secret's
  length made of the redaction character \<^verbatim>\<open>*\<close> only, so every non-empty piece of
  the output consists of \<^verbatim>\<open>*\<close> alone. The empty string is answered with
  \<^verbatim>\<open>(none)\<close>, and \<^verbatim>\<open>maskToken\<close> of the GitHub wrapper has no short case.
\<close>

theorem maskValue_short:
  assumes "s \<noteq> []" and "length s \<le> p + q"
  shows "maskValue (JStr s) p q = replicate (length s) CHR ''*'' \<and>
         length (maskValue (JStr s) p q) = length s \<and>
         (\<forall>t. t \<noteq> [] \<and> sublist t (maskValue (JStr s) p q) \<longrightarrow> set t = {CHR ''*''})"
proof -
  from assms have m: "maskValue (JStr s) p q = replicate (length s) CHR ''*''"
    by (simp add: maskValue_def)
  have "set t = {CHR ''*''}" if "t \<noteq> []" "sublist t (replicate (length s) CHR ''*'')" for t
  proof -
    from that(2) have "set t \<subseteq> set (replicate (length s) CHR ''*'')"
      by (rule set_mono_sublist)
    then have "set t \<subseteq> {CHR ''*''}" by auto
    with that(1) show ?thesis by (cases t) auto
  qed
  with m show ?thesis by simp
qed

theorem maskValue_short_witness:
  "maskValue (JStr ''ya29.secret'') 10 6 = ''***********'' \<and>
   length (maskValue (JStr ''ya29.secret'') 10 6) = 11"
proof -
  have "''ya29.secret'' \<noteq> []" and "length ''ya29.secret'' \<le> (10::nat) + 6" by simp_all
  from maskValue_short [OF this] show ?thesis by (simp add: numeral_eq_Suc)
qed

text \<open>The claim as stated fails twice: the three-character token \<^verbatim>\<open>abc\<close>, shorter
  than the 6 + 4 characters \<^verbatim>\<open>maskToken\<close> shows, comes back whole and twice; and
  the empty string, of length 0, is masked by \<^verbatim>\<open>maskValue\<close> to six characters that
  are not the redaction character.\<close>

theorem mask_short_counterexample:
  "length ''abc'' \<le> (6::nat) + 4 \<and> maskToken ''abc'' = ''abc...abc''
   \<and> maskToken ''abc'' \<noteq> replicate (length ''abc'') CHR ''*''
   \<and> sublist ''abc'' (maskToken ''abc'')
   \<and> length ([] :: string) \<le> (10::nat) + 6 \<and> maskValue (JStr []) 10 6 = ''(none)''
   \<and> length (maskValue (JStr []) 10 6) \<noteq> length ([] :: string)"
proof -
  have "maskToken ''abc'' = ''abc...abc''"
    by (simp add: maskToken_def slice_prefix_def slice_suffix_def)
  moreover have "sublist ''abc'' ''abc...abc''"
    by (rule prefix_imp_sublist) simp
  moreover have "maskValue (JStr []) 10 6 = ''(none)''"
    by (simp add: maskValue_def)
  ultimately show ?thesis by simp
qed

section \<open>The boolean flag parser: properties\<close>

text \<open>
  C10. \<^verbatim>\<open>boolOpt\<close> returns its fallback when the value is \<^verbatim>\<open>undefined\<close>. On any
  other value it returns \<^verbatim>\<open>true\<close> exactly when the lowercased, trimmed string form
  of the value is \<^verbatim>\<open>1\<close> or \<^verbatim>\<open>true\<close>, \<^verbatim>\<open>false\<close> exactly when it is \<^verbatim>\<open>0\<close> or
  \<^verbatim>\<open>false\<close>, and throws exactly in the remaining cases. The value \<^verbatim>\<open>true\<close> of a
  bare flag is accepted as \<^verbatim>\<open>true\<close>.
\<close>

theorem boolOpt_spec:
  "boolOpt h JUndefined fb = Inr fb \<and>
   boolOpt h (JBool True) fb = Inr (JBool True) \<and>
   (v \<noteq> JUndefined \<longrightarrow>
     ((boolOpt h v fb = Inr (JBool True)) =
        (js_trim (js_toLowerCase (js_String h v)) \<in> {''1'', ''true''})) \<and>
     ((boolOpt h v fb = Inr (JBool False)) =
        (js_trim (js_toLowerCase (js_String h v)) \<in> {''0'', ''false''})) \<and>
     ((\<exists>e. boolOpt h v fb = Inl e) =
        (js_trim (js_toLowerCase (js_String h v)) \<notin> {''1'', ''true'', ''0'', ''false''})))"
proof -
  have t: "js_trim (js_toLowerCase ''true'') = ''true''" by code_simp
  show ?thesis
    by (auto simp: boolOpt_def Let_def t)
qed

theorem boolOpt_spec_witness:
  "boolOpt example_host (JStr '' TRUE '') JUndefined = Inr (JBool True) \<and>
   boolOpt example_host (JStr ''0'') JUndefined = Inr (JBool False) \<and>
   (\<exists>e. boolOpt example_host (JStr ''yes'') JUndefined = Inl e)"
proof -
  have a: "js_trim (js_toLowerCase '' TRUE '') = ''true''" by code_simp
  have b: "js_trim (js_toLowerCase ''0'') = ''0''" by code_simp
  have c: "js_trim (js_toLowerCase ''yes'') = ''yes''" by code_simp
  show ?thesis
    using boolOpt_spec [of example_host JUndefined "JStr '' TRUE ''"]
      boolOpt_spec [of example_host JUndefined "JStr ''0''"]
      boolOpt_spec [of example_host JUndefined "JStr ''yes''"]
    by (simp add: a b c)
qed

section \<open>Version codes: properties\<close>















lemma steps_append: "steps (xs @ ys) = steps xs @ steps ys"
  by (induction xs) (auto split: option.splits)

lemma createContext_steps: "steps (fst (createContext h w api opts rp tr)) = steps tr"
  by (auto simp: createContext_def io_bind_def io_lift_def io_call_def io_pure_def steps_append
      split: sum.splits prod.splits)








section \<open>Release notes: properties\<close>

lemma notes_of_array_form:
  assumes "\<forall>(l, t) \<in> set ps. l \<noteq> [] \<and> t \<noteq> []"
  shows "normalizeNotes h (array_form ps) = Inr (map (\<lambda>(l, t). (JStr l, JStr t)) ps)"
  using assms
  by (auto simp: normalizeNotes_def array_form_def notes_of_array_def Let_def list_ex_iff
      split: prod.splits)

lemma define_property_fresh:
  "k \<notin> fst ` set kvs \<Longrightarrow> define_property k v kvs = kvs @ [(k, v)]"
  by (induction kvs) auto

lemma created_properties_from:
  "distinct (map fst (acc @ kvs))
   \<Longrightarrow> foldl (\<lambda>acc (k, v). define_property k v acc) acc kvs = acc @ kvs"
proof (induction kvs arbitrary: acc)
  case Nil
  then show ?case by simp
next
  case (Cons kv kvs)
  obtain k v where kv: "kv = (k, v)" by (cases kv)
  have "k \<notin> fst ` set acc" using Cons.prems kv by auto
  then have "define_property k v acc = acc @ [(k, v)]" by (rule define_property_fresh)
  moreover have "distinct (map fst ((acc @ [(k, v)]) @ kvs))" using Cons.prems kv by simp
  ultimately show ?case using Cons.IH [of "acc @ [(k, v)]"] kv by simp
qed

lemma created_properties_distinct:
  "distinct (map fst kvs) \<Longrightarrow> created_properties kvs = kvs"
  using created_properties_from [of "[]" kvs] by (simp add: created_properties_def)

lemma property_order_no_index:
  "\<forall>kv \<in> set kvs. \<not> is_array_index (fst kv) \<Longrightarrow> property_order kvs = kvs"
  by (simp add: property_order_def filter_empty_conv [THEN iffD2] cong: filter_cong)

lemma property_order_length: "length (property_order kvs) = length kvs"
  by (simp add: property_order_def sum_length_filter_compl)

lemma insort_key_map_snd:
  "insort_key (\<lambda>kv. f (fst kv)) (k, g v) (map (\<lambda>(l, t). (l, g t)) xs)
   = map (\<lambda>(l, t). (l, g t)) (insort_key (\<lambda>kv. f (fst kv)) (k, v) xs)"
  by (induction xs) (auto split: prod.splits)

lemma sort_key_map_snd:
  "sort_key (\<lambda>kv. f (fst kv)) (map (\<lambda>(l, t). (l, g t)) xs)
   = map (\<lambda>(l, t). (l, g t)) (sort_key (\<lambda>kv. f (fst kv)) xs)"
  by (induction xs) (auto simp: insort_key_map_snd split: prod.splits)

lemma property_order_map:
  "property_order (map (\<lambda>(l, t). (l, g t)) kvs) = map (\<lambda>(l, t). (l, g t)) (property_order kvs)"
proof -
  have f: "filter (\<lambda>kv. P (fst kv)) (map (\<lambda>(l, t). (l, g t)) kvs)
      = map (\<lambda>(l, t). (l, g t)) (filter (\<lambda>kv. P (fst kv)) kvs)" for P
    by (induction kvs) (auto split: prod.splits)
  show ?thesis
    unfolding property_order_def
    by (simp only: f [of is_array_index] f [of "\<lambda>k. \<not> is_array_index k"]
        sort_key_map_snd map_append)
qed

lemma object_form_distinct:
  "distinct (map fst ps)
   \<Longrightarrow> object_form ps = JObj (map (\<lambda>(l, t). (l, JStr t)) (property_order ps))"
  by (simp add: object_form_def parsed_object_def created_properties_distinct)

lemma notes_of_object_form:
  assumes "ps \<noteq> []" and "distinct (map fst ps)"
  shows "normalizeNotes h (object_form ps)
     = Inr (map (\<lambda>(l, t). (JStr l, JStr t)) (property_order ps))"
proof -
  have "property_order ps \<noteq> []"
    using assms(1) property_order_length [of ps] by (cases "property_order ps") auto
  then show ?thesis
    using assms(2)
    by (auto simp: object_form_distinct normalizeNotes_def notes_of_object_def Let_def
        split: prod.splits)
qed

lemma notes_map_inj:
  "map (\<lambda>(l, t). (JStr l, JStr t)) xs = map (\<lambda>(l, t). (JStr l, JStr t)) ys \<longleftrightarrow> xs = ys"
proof -
  have "inj (\<lambda>(l, t). (JStr l, JStr t))" by (auto simp: inj_on_def)
  then show ?thesis by (simp add: inj_map_eq_map)
qed

lemma notes_array_incomplete:
  assumes "entry \<in> set entries"
    and "\<not> truthy (js_get_opt entry ''language'') \<or> \<not> truthy (js_get_opt entry ''text'')"
  shows "normalizeNotes h (JArr entries) = Inl (CliError NotesArrayEntryIncomplete)"
  using assms by (auto simp: normalizeNotes_def notes_of_array_def Let_def list_ex_iff)

lemma loadReleaseNotes_file:
  assumes "p \<noteq> []" and "fs_exists w (path_resolve h p)"
    and "Option.bind (fs_read w (path_resolve h p)) (JSON_parse h) = Some parsed"
  shows "loadReleaseNotes h w (JStr p) = map_sum id Some (normalizeNotes h parsed)"
  using assms by (simp add: loadReleaseNotes_def Let_def)

text \<open>
  C7, as the code has it. For every non-empty list of (language, text) pairs with
  non-empty languages and texts, and languages all different (an object has each
  key once), a release-notes file holding the array form loads to the notes in
  the order of the file, and one holding the object form with the same pairs
  written in the same order loads to the notes in the engine's order of
  properties: the languages that are array indices (canonical decimal integers
  below 4294967295) first, in ascending numeric order, then the others in the
  order of the file. So the two files load to the identical list of notes exactly
  when the pairs are written in that order, and in particular whenever no
  language is an array index.
  A file holding an array with an entry whose language or text is missing or empty
  is rejected with an error, a file holding the empty object is rejected with an
  error, and a file holding the empty array loads to the empty list of notes.
\<close>

theorem release_notes_forms_agree:
  assumes "ps \<noteq> []" and "\<forall>(l, t) \<in> set ps. l \<noteq> [] \<and> t \<noteq> []" and "distinct (map fst ps)"
    and "pa \<noteq> []" and "fs_exists w (path_resolve h pa)"
    and "Option.bind (fs_read w (path_resolve h pa)) (JSON_parse h) = Some (array_form ps)"
    and "po \<noteq> []" and "fs_exists w (path_resolve h po)"
    and "Option.bind (fs_read w (path_resolve h po)) (JSON_parse h) = Some (object_form ps)"
  shows "loadReleaseNotes h w (JStr pa) = Inr (Some (map (\<lambda>(l, t). (JStr l, JStr t)) ps))
     \<and> loadReleaseNotes h w (JStr po)
         = Inr (Some (map (\<lambda>(l, t). (JStr l, JStr t)) (property_order ps)))
     \<and> (loadReleaseNotes h w (JStr pa) = loadReleaseNotes h w (JStr po)
          \<longleftrightarrow> property_order ps = ps)
     \<and> ((\<forall>(l, t) \<in> set ps. \<not> is_array_index l)
          \<longrightarrow> loadReleaseNotes h w (JStr pa) = loadReleaseNotes h w (JStr po))
     \<and> (\<forall>pe entries entry.
          pe \<noteq> [] \<and> fs_exists w (path_resolve h pe)
          \<and> Option.bind (fs_read w (path_resolve h pe)) (JSON_parse h) = Some (JArr entries)
          \<and> entry \<in> set entries
          \<and> (\<not> truthy (js_get_opt entry ''language'') \<or> \<not> truthy (js_get_opt entry ''text''))
          \<longrightarrow> loadReleaseNotes h w (JStr pe) = Inl (CliError NotesArrayEntryIncomplete))
     \<and> (\<forall>pe. pe \<noteq> [] \<and> fs_exists w (path_resolve h pe)
          \<and> Option.bind (fs_read w (path_resolve h pe)) (JSON_parse h) = Some (JObj [])
          \<longrightarrow> loadReleaseNotes h w (JStr pe) = Inl (CliError NotesObjectEmpty))
     \<and> (\<forall>pe. pe \<noteq> [] \<and> fs_exists w (path_resolve h pe)
          \<and> Option.bind (fs_read w (path_resolve h pe)) (JSON_parse h) = Some (JArr [])
          \<longrightarrow> loadReleaseNotes h w (JStr pe) = Inr (Some []))"
proof -
  have a: "loadReleaseNotes h w (JStr pa) = Inr (Some (map (\<lambda>(l, t). (JStr l, JStr t)) ps))"
    using assms(2,4,5,6) by (simp add: loadReleaseNotes_file notes_of_array_form)
  have b: "loadReleaseNotes h w (JStr po)
      = Inr (Some (map (\<lambda>(l, t). (JStr l, JStr t)) (property_order ps)))"
    using assms(1,3,7,8,9) by (simp add: loadReleaseNotes_file notes_of_object_form)
  have ab: "loadReleaseNotes h w (JStr pa) = loadReleaseNotes h w (JStr po)
      \<longleftrightarrow> property_order ps = ps"
    unfolding a b using notes_map_inj [of ps "property_order ps"] by auto
  have ni: "(\<forall>(l, t) \<in> set ps. \<not> is_array_index l)
      \<longrightarrow> loadReleaseNotes h w (JStr pa) = loadReleaseNotes h w (JStr po)"
  proof
    assume "\<forall>(l, t) \<in> set ps. \<not> is_array_index l"
    then have "\<forall>kv \<in> set ps. \<not> is_array_index (fst kv)" by auto
    then have "property_order ps = ps" by (rule property_order_no_index)
    then show "loadReleaseNotes h w (JStr pa) = loadReleaseNotes h w (JStr po)"
      using ab by simp
  qed
  have c: "\<forall>pe entries entry.
          pe \<noteq> [] \<and> fs_exists w (path_resolve h pe)
          \<and> Option.bind (fs_read w (path_resolve h pe)) (JSON_parse h) = Some (JArr entries)
          \<and> entry \<in> set entries
          \<and> (\<not> truthy (js_get_opt entry ''language'') \<or> \<not> truthy (js_get_opt entry ''text''))
          \<longrightarrow> loadReleaseNotes h w (JStr pe) = Inl (CliError NotesArrayEntryIncomplete)"
  proof (intro allI impI, elim conjE)
    fix pe entries entry
    assume "pe \<noteq> []" "fs_exists w (path_resolve h pe)"
      "Option.bind (fs_read w (path_resolve h pe)) (JSON_parse h) = Some (JArr entries)"
      "entry \<in> set entries"
      "\<not> truthy (js_get_opt entry ''language'') \<or> \<not> truthy (js_get_opt entry ''text'')"
    then show "loadReleaseNotes h w (JStr pe) = Inl (CliError NotesArrayEntryIncomplete)"
      by (simp add: loadReleaseNotes_file notes_array_incomplete [of entry entries])
  qed
  have d: "\<forall>pe. pe \<noteq> [] \<and> fs_exists w (path_resolve h pe)
          \<and> Option.bind (fs_read w (path_resolve h pe)) (JSON_parse h) = Some (JObj [])
          \<longrightarrow> loadReleaseNotes h w (JStr pe) = Inl (CliError NotesObjectEmpty)"
    by (simp add: loadReleaseNotes_file normalizeNotes_def notes_of_object_def)
  have e: "\<forall>pe. pe \<noteq> [] \<and> fs_exists w (path_resolve h pe)
          \<and> Option.bind (fs_read w (path_resolve h pe)) (JSON_parse h) = Some (JArr [])
          \<longrightarrow> loadReleaseNotes h w (JStr pe) = Inr (Some [])"
    by (simp add: loadReleaseNotes_file normalizeNotes_def notes_of_array_def)
  show ?thesis
    using a b ab ni c d e by - (intro conjI; assumption)
qed

theorem release_notes_forms_agree_witness:
  "loadReleaseNotes example_host example_world (JStr ''/notes-array.json'')
     = loadReleaseNotes example_host example_world (JStr ''/notes-object.json'')
   \<and> loadReleaseNotes example_host example_world (JStr ''/notes-array.json'')
     = Inr (Some [(JStr ''en-US'', JStr ''Bug fixes'')])
   \<and> loadReleaseNotes example_host example_world (JStr ''/index-array.json'')
     = Inr (Some [(JStr ''2'', JStr ''two''), (JStr ''1'', JStr ''one'')])
   \<and> loadReleaseNotes example_host example_world (JStr ''/index-object.json'')
     = Inr (Some [(JStr ''1'', JStr ''one''), (JStr ''2'', JStr ''two'')])
   \<and> loadReleaseNotes example_host example_world (JStr ''/blank-array.json'')
     = Inl (CliError NotesArrayEntryIncomplete)
   \<and> loadReleaseNotes example_host example_world (JStr ''/empty-object.json'')
     = Inl (CliError NotesObjectEmpty)"
proof -
  have 1: "Option.bind (fs_read example_world (path_resolve example_host ''/notes-array.json''))
       (JSON_parse example_host) = Some (array_form [(''en-US'', ''Bug fixes'')])"
    by code_simp
  have 2: "Option.bind (fs_read example_world (path_resolve example_host ''/notes-object.json''))
       (JSON_parse example_host) = Some (object_form [(''en-US'', ''Bug fixes'')])"
    by code_simp
  have 3: "fs_exists example_world (path_resolve example_host ''/notes-array.json'')"
    "fs_exists example_world (path_resolve example_host ''/notes-object.json'')"
    "fs_exists example_world (path_resolve example_host ''/blank-array.json'')"
    "fs_exists example_world (path_resolve example_host ''/empty-object.json'')"
    "fs_exists example_world (path_resolve example_host ''/index-array.json'')"
    "fs_exists example_world (path_resolve example_host ''/index-object.json'')"
    by code_simp+
  have 4: "Option.bind (fs_read example_world (path_resolve example_host ''/blank-array.json''))
       (JSON_parse example_host) = Some (JArr [JObj [(''language'', JStr ''en-US''), (''text'', JStr [])]])"
    by code_simp
  have 5: "Option.bind (fs_read example_world (path_resolve example_host ''/empty-object.json''))
       (JSON_parse example_host) = Some (JObj [])"
    by code_simp
  have 6: "[(''en-US'', ''Bug fixes'')] \<noteq> []"
    "\<forall>(l, t) \<in> set [(''en-US'', ''Bug fixes'')]. l \<noteq> [] \<and> t \<noteq> []"
    "distinct (map fst [(''en-US'', ''Bug fixes'')])"
    "''/notes-array.json'' \<noteq> []" "''/notes-object.json'' \<noteq> []"
    by simp_all
  have 7: "\<not> is_array_index ''en-US''"
    by code_simp
  have 8: "Option.bind (fs_read example_world (path_resolve example_host ''/index-array.json''))
       (JSON_parse example_host) = Some (array_form [(''2'', ''two''), (''1'', ''one'')])"
    by code_simp
  have 9: "Option.bind (fs_read example_world (path_resolve example_host ''/index-object.json''))
       (JSON_parse example_host) = Some (object_form [(''2'', ''two''), (''1'', ''one'')])"
    by code_simp
  have 10: "[(''2'', ''two''), (''1'', ''one'')] \<noteq> []"
    "\<forall>(l, t) \<in> set [(''2'', ''two''), (''1'', ''one'')]. l \<noteq> [] \<and> t \<noteq> []"
    "distinct (map fst [(''2'', ''two''), (''1'', ''one'')])"
    "''/index-array.json'' \<noteq> []" "''/index-object.json'' \<noteq> []"
    by simp_all
  have 11: "property_order [(''2'', ''two''), (''1'', ''one'')] = [(''1'', ''one''), (''2'', ''two'')]"
    by code_simp
  note t = release_notes_forms_agree [OF 6(1) 6(2) 6(3) 6(4) 3(1) 1 6(5) 3(2) 2]
  note u = release_notes_forms_agree [OF 10(1) 10(2) 10(3) 10(4) 3(5) 8 10(5) 3(6) 9]
  from t [THEN conjunct2, THEN conjunct2, THEN conjunct2, THEN conjunct1] 7
  have a: "loadReleaseNotes example_host example_world (JStr ''/notes-array.json'')
     = loadReleaseNotes example_host example_world (JStr ''/notes-object.json'')"
    by simp
  from t [THEN conjunct1]
  have b: "loadReleaseNotes example_host example_world (JStr ''/notes-array.json'')
     = Inr (Some [(JStr ''en-US'', JStr ''Bug fixes'')])"
    by simp
  from u [THEN conjunct1]
  have ia: "loadReleaseNotes example_host example_world (JStr ''/index-array.json'')
     = Inr (Some [(JStr ''2'', JStr ''two''), (JStr ''1'', JStr ''one'')])"
    by simp
  from u [THEN conjunct2, THEN conjunct1]
  have io: "loadReleaseNotes example_host example_world (JStr ''/index-object.json'')
     = Inr (Some [(JStr ''1'', JStr ''one''), (JStr ''2'', JStr ''two'')])"
    by (simp only: 11 list.map prod.case)
  from t have "\<forall>pe entries entry.
          pe \<noteq> [] \<and> fs_exists example_world (path_resolve example_host pe)
          \<and> Option.bind (fs_read example_world (path_resolve example_host pe)) (JSON_parse example_host) = Some (JArr entries)
          \<and> entry \<in> set entries
          \<and> (\<not> truthy (js_get_opt entry ''language'') \<or> \<not> truthy (js_get_opt entry ''text''))
          \<longrightarrow> loadReleaseNotes example_host example_world (JStr pe) = Inl (CliError NotesArrayEntryIncomplete)"
    by blast
  from this [rule_format, of "''/blank-array.json''" _ "JObj [(''language'', JStr ''en-US''), (''text'', JStr [])]"] 3(3) 4
  have c: "loadReleaseNotes example_host example_world (JStr ''/blank-array.json'')
     = Inl (CliError NotesArrayEntryIncomplete)"
    by simp
  from t have "\<forall>pe. pe \<noteq> [] \<and> fs_exists example_world (path_resolve example_host pe)
          \<and> Option.bind (fs_read example_world (path_resolve example_host pe)) (JSON_parse example_host) = Some (JObj [])
          \<longrightarrow> loadReleaseNotes example_host example_world (JStr pe) = Inl (CliError NotesObjectEmpty)"
    by blast
  from this [rule_format, of "''/empty-object.json''"] 3(4) 5
  have d: "loadReleaseNotes example_host example_world (JStr ''/empty-object.json'')
     = Inl (CliError NotesObjectEmpty)"
    by simp
  show ?thesis
    using a b ia io c d by - (intro conjI; assumption)
qed

text \<open>For the empty list of pairs the two forms differ: the empty array loads to
  no notes and the empty object is an error. For a pair with an empty text they
  differ the other way round: the array is rejected, the object is loaded. For
  the pairs (2, two), (1, one), written in this order in both files, both files
  are loaded and the notes differ in their order.\<close>

theorem release_notes_forms_counterexample:
  "array_form [] = JArr [] \<and> object_form [] = JObj []
   \<and> loadReleaseNotes example_host example_world (JStr ''/empty-array.json'') = Inr (Some [])
   \<and> loadReleaseNotes example_host example_world (JStr ''/empty-object.json'')
       = Inl (CliError NotesObjectEmpty)
   \<and> loadReleaseNotes example_host example_world (JStr ''/blank-array.json'')
       = Inl (CliError NotesArrayEntryIncomplete)
   \<and> loadReleaseNotes example_host example_world (JStr ''/blank-object.json'')
       = Inr (Some [(JStr ''en-US'', JStr [])])
   \<and> fs_read example_world ''/index-array.json''
       = Some ''[{\"language\":\"2\",\"text\":\"two\"},{\"language\":\"1\",\"text\":\"one\"}]''
   \<and> fs_read example_world ''/index-object.json'' = Some ''{\"2\":\"two\",\"1\":\"one\"}''
   \<and> Option.bind (fs_read example_world ''/index-array.json'') (JSON_parse example_host)
       = Some (array_form [(''2'', ''two''), (''1'', ''one'')])
   \<and> Option.bind (fs_read example_world ''/index-object.json'') (JSON_parse example_host)
       = Some (object_form [(''2'', ''two''), (''1'', ''one'')])
   \<and> loadReleaseNotes example_host example_world (JStr ''/index-array.json'')
       = Inr (Some [(JStr ''2'', JStr ''two''), (JStr ''1'', JStr ''one'')])
   \<and> loadReleaseNotes example_host example_world (JStr ''/index-object.json'')
       = Inr (Some [(JStr ''1'', JStr ''one''), (JStr ''2'', JStr ''two'')])"
proof -
  have 1: "array_form [] = JArr []"
    by (simp add: array_form_def)
  have 0: "object_form [] = JObj []"
    by code_simp
  have 2: "loadReleaseNotes example_host example_world (JStr ''/empty-array.json'') = Inr (Some [])"
    by code_simp
  have 3: "loadReleaseNotes example_host example_world (JStr ''/empty-object.json'')
       = Inl (CliError NotesObjectEmpty)"
    by code_simp
  have 4: "loadReleaseNotes example_host example_world (JStr ''/blank-array.json'')
       = Inl (CliError NotesArrayEntryIncomplete)"
    by code_simp
  have 5: "loadReleaseNotes example_host example_world (JStr ''/blank-object.json'')
       = Inr (Some [(JStr ''en-US'', JStr [])])"
    by code_simp
  have 6: "fs_read example_world ''/index-array.json''
       = Some ''[{\"language\":\"2\",\"text\":\"two\"},{\"language\":\"1\",\"text\":\"one\"}]''"
    by code_simp
  have 7: "fs_read example_world ''/index-object.json'' = Some ''{\"2\":\"two\",\"1\":\"one\"}''"
    by code_simp
  have 8: "Option.bind (fs_read example_world ''/index-array.json'') (JSON_parse example_host)
       = Some (array_form [(''2'', ''two''), (''1'', ''one'')])"
    by code_simp
  have 9: "Option.bind (fs_read example_world ''/index-object.json'') (JSON_parse example_host)
       = Some (object_form [(''2'', ''two''), (''1'', ''one'')])"
    by code_simp
  have 10: "loadReleaseNotes example_host example_world (JStr ''/index-array.json'')
       = Inr (Some [(JStr ''2'', JStr ''two''), (JStr ''1'', JStr ''one'')])"
    by code_simp
  have 11: "loadReleaseNotes example_host example_world (JStr ''/index-object.json'')
       = Inr (Some [(JStr ''1'', JStr ''one''), (JStr ''2'', JStr ''two'')])"
    by code_simp
  show ?thesis
    using 1 0 2 3 4 5 6 7 8 9 10 11 by - (intro conjI; assumption)
qed

section \<open>Release validation: properties\<close>


lemma createContext_cases:
  obtains (failed) e tr' where "createContext h w api opts rp tr = (tr', Inl e)" "steps tr' = steps tr"
  | (ok) ctx tr' where "createContext h w api opts rp tr = (tr', Inr ctx)" "steps tr' = steps tr"
proof -
  obtain tr' r where c: "createContext h w api opts rp tr = (tr', r)"
    by (cases "createContext h w api opts rp tr")
  with createContext_steps [of h w api opts rp tr] have "steps tr' = steps tr" by simp
  with c show ?thesis by (cases r) (auto intro: failed ok)
qed






lemma parseUserFraction_absent:
  assumes "raw = JUndefined \<or> raw = JNull"
  shows "parseUserFraction h raw = Inr None"
  using assms by (auto simp: parseUserFraction_def)


section \<open>The publish flow: properties\<close>


lemma fails_at_snoc:
  "i < Suc (length tr) \<Longrightarrow>
   fails_at rem (tr @ [c]) i =
     (if i < length tr then fails_at rem tr i
      else (step_of c \<noteq> None \<and> step_failed c (rem tr c)))"
  by (auto simp: fails_at_def nth_append less_Suc_eq)

lemma no_steps_no_fail: "steps tr = [] \<Longrightarrow> i < length tr \<Longrightarrow> \<not> fails_at rem tr i"
proof (induction tr arbitrary: i rule: rev_induct)
  case Nil then show ?case by simp
next
  case (snoc c tr)
  then show ?case
    by (auto simp: fails_at_snoc steps_append split: option.splits if_splits)
qed

lemma publish_submit_sequential:
  "sequential api (publish_submit_action h w api opts [])"
proof (cases rule: createContext_cases [of h w api opts True "[]"])
  case (failed e tr')
  then show ?thesis
    by (auto simp: sequential_def publish_submit_action_def io_bind_def no_steps_no_fail)
next
  case (ok ctx tr')
  have nf: "\<not> fails_at api tr' i" if "i < length tr'" for i
    using ok(2) that by (simp add: no_steps_no_fail)
  from ok show ?thesis
    unfolding sequential_def publish_submit_action_def
    by (auto simp: io_bind_def io_lift_def io_call_def io_throw_def io_pure_def
        steps_append publish_order_def fails_at_snoc nf step_failed_def has_field_def
        split: sum.splits if_splits simp del: append_assoc)
qed

lemma jsonRequest_call:
  "jsonRequest h fetch c = io_call (\<lambda>tr c. snd (jsonRequest h fetch c tr)) c"
  by (rule ext)
    (auto simp: jsonRequest_def io_bind_def io_call_def io_lift_def io_throw_def io_pure_def
      split: sum.splits option.splits)

lemma quiet_pure: "quiet (io_pure x)"
  and quiet_throw: "quiet (io_throw e)"
  and quiet_lift: "quiet (io_lift r)"
  by (simp_all add: quiet_def io_pure_def io_throw_def io_lift_def)

lemma quiet_call: "step_of c = None \<Longrightarrow> quiet (io_call rem c)"
  by (simp add: quiet_def io_call_def steps_append)

lemma quiet_bind: "quiet m \<Longrightarrow> (\<And>x. quiet (f x)) \<Longrightarrow> quiet (io_bind m f)"
  by (auto simp: quiet_def io_bind_def split: prod.splits sum.splits) (metis fst_conv)+

lemma quiet_if: "quiet a \<Longrightarrow> quiet b \<Longrightarrow> quiet (if c then a else b)"
  by simp

lemma quiet_case_option: "quiet a \<Longrightarrow> (\<And>x. quiet (b x)) \<Longrightarrow> quiet (case v of None \<Rightarrow> a | Some x \<Rightarrow> b x)"
  by (cases v) simp_all

lemma quiet_exchangeAccessToken: "quiet (exchangeAccessToken h fetch now sa)"
  unfolding exchangeAccessToken_def
  by (intro quiet_bind quiet_lift quiet_call quiet_if quiet_throw quiet_pure quiet_case_option) simp

lemma quiet_obtainAccessToken: "quiet (obtainAccessToken h w fetch now opts)"
  unfolding obtainAccessToken_def
  by (intro quiet_bind quiet_lift quiet_if quiet_throw quiet_pure quiet_exchangeAccessToken)

lemma obtainAccessToken_steps: "steps (fst (obtainAccessToken h w fetch now opts tr)) = steps tr"
  using quiet_obtainAccessToken [of h w fetch now opts] by (simp add: quiet_def)

lemma obtainAccessToken_cases:
  obtains (failed) e tr' where "obtainAccessToken h w fetch now opts tr = (tr', Inl e)"
      "steps tr' = steps tr"
  | (ok) tok tr' where "obtainAccessToken h w fetch now opts tr = (tr', Inr tok)"
      "steps tr' = steps tr"
proof -
  obtain tr' r where c: "obtainAccessToken h w fetch now opts tr = (tr', r)"
    by (cases "obtainAccessToken h w fetch now opts tr")
  with obtainAccessToken_steps [of h w fetch now opts tr] have "steps tr' = steps tr" by simp
  with c show ?thesis by (cases r) (auto intro: failed ok)
qed

lemma lite_core_sequential:
  fixes rem :: "js remote"
  assumes nf: "\<And>i. i < length tr' \<Longrightarrow> \<not> fails_at rem tr' i" and st: "steps tr' = []"
  shows "sequential rem
     (io_bind (io_call rem (EditsInsert pkg)) (\<lambda>edit.
      io_bind (io_lift (js_get edit ''id'')) (\<lambda>editId.
      if \<not> truthy editId then io_throw e1
      else
      io_bind (case rd of None \<Rightarrow> io_throw e2
               | Some buffer \<Rightarrow> io_call rem (BundlesUpload pkg editId aab)) (\<lambda>uploaded.
      io_bind (io_lift (js_get uploaded ''versionCode'')) (\<lambda>versionCode.
      if \<not> truthy versionCode then io_throw e3
      else
      io_bind (io_call rem (TracksUpdate pkg editId track (mk versionCode))) (\<lambda>trackResult.
      io_bind (io_call rem (EditsValidate pkg editId)) (\<lambda>validateResult.
      io_bind (io_call rem (EditsCommit pkg editId flag)) (\<lambda>commitResult.
      io_pure (out editId uploaded trackResult validateResult commitResult)))))))) tr')"
  using st
  unfolding sequential_def
  by (cases rd)
    (auto simp: io_bind_def io_lift_def io_call_def io_throw_def io_pure_def
        steps_append publish_order_def fails_at_snoc nf step_failed_def has_field_def
        split: sum.splits if_splits simp del: append_assoc)

lemma io_bind_lift_Inr: "io_bind (io_lift (Inr x)) f = f x"
  and io_bind_lift_Inl: "io_bind (io_lift (Inl e)) f = io_throw e"
  by (rule ext, simp add: io_bind_def io_lift_def io_throw_def)+

lemma io_bind_Inr: "m tr = (tr', Inr x) \<Longrightarrow> io_bind m f tr = f x tr'"
  and io_bind_Inl: "m tr = (tr', Inl e) \<Longrightarrow> io_bind m f tr = (tr', Inl e)"
  by (simp_all add: io_bind_def)

lemma sequential_quiet_failure: "steps tr = [] \<Longrightarrow> sequential rem (tr, Inl e)"
  by (simp add: sequential_def no_steps_no_fail)

lemma lite_publish_submit_sequential:
  "sequential (\<lambda>tr c. snd (jsonRequest h fetch c tr)) (lite_publish_submit h w fetch now opts [])"
proof (cases rule: obtainAccessToken_cases [of h w fetch now opts "[]"])
  case (failed e tr')
  then show ?thesis
    by (simp add: lite_publish_submit_def io_bind_Inl sequential_quiet_failure)
next
  case (ok tok tr')
  define rem where "rem = (\<lambda>tr c. snd (jsonRequest h fetch c tr))"
  have j: "jsonRequest h fetch c = io_call rem c" for c
    unfolding rem_def by (rule jsonRequest_call)
  have nf: "\<not> fails_at rem tr' i" if "i < length tr'" for i
    using ok(2) that by (simp add: no_steps_no_fail)
  from ok(2) have st: "steps tr' = []" by simp
  have "sequential rem (lite_publish_submit h w fetch now opts [])"
  proof (cases "required h w opts ''package-name'' (Some ''PLAY_PACKAGE_NAME'')")
    case (Inl e)
    with ok(1) st show ?thesis
      by (simp add: lite_publish_submit_def io_bind_Inr io_bind_lift_Inl io_throw_def
          sequential_quiet_failure split: prod.splits)
  next
    case pkg: (Inr pkg)
    show ?thesis
    proof (cases "required h w opts ''aab'' None")
      case (Inl e)
      with ok(1) st pkg show ?thesis
        by (simp add: lite_publish_submit_def io_bind_Inr io_bind_lift_Inl io_bind_lift_Inr
            io_throw_def sequential_quiet_failure split: prod.splits)
    next
      case aab: (Inr aab)
      show ?thesis
      proof (cases "boolOpt h (opts ''changes-not-sent-for-review'') JUndefined")
        case (Inl e)
        with ok(1) st pkg aab show ?thesis
          by (simp add: lite_publish_submit_def io_bind_Inr io_bind_lift_Inl io_bind_lift_Inr
              io_throw_def sequential_quiet_failure split: prod.splits)
      next
        case flag: (Inr flag)
        obtain tokenResult accessToken where tok: "tok = (tokenResult, accessToken)"
          by (cases tok)
        show ?thesis
          unfolding lite_publish_submit_def bundlesUpload_def tracksUpdate_def j
          apply (simp only: io_bind_Inr [of "obtainAccessToken h w fetch now opts" "[]", OF ok(1)]
              tok prod.case pkg aab flag io_bind_lift_Inr)
          apply (rule lite_core_sequential [OF nf st])
          apply assumption
          done
      qed
    qed
  qed
  then show ?thesis by (simp add: rem_def)
qed

text \<open>
  C2. In \<^verbatim>\<open>publish submit\<close> of either CLI the five calls are made in the order
  create edit, upload bundle, update track, validate edit, commit edit, each after
  the answer to the one before (the later call is built from the earlier answer,
  and the other side answers from the calls made so far). A run that succeeds has
  made all five. If a step's call fails, by rejecting or by an answer without the
  required field, it is the last call made and the run ends in failure. For the
  dependency-free CLI the answer to a call is what \<^verbatim>\<open>jsonRequest\<close> makes of the
  response.
\<close>

theorem publish_flow_sequential:
  "sequential api (publish_submit_action h w api opts [])
   \<and> sequential (\<lambda>tr c. snd (jsonRequest h fetch c tr))
       (lite_publish_submit h w fetch now opts' [])"
  using publish_submit_sequential [of api h w opts]
    lite_publish_submit_sequential [of h fetch w now opts']
  by simp

theorem publish_flow_sequential_witness:
  "steps (fst (publish_submit_action example_host example_world example_api
       (play_opts JUndefined JUndefined JUndefined) [])) = publish_order
   \<and> isl (snd (publish_submit_action example_host example_world (rejecting_api UploadBundle)
       (play_opts JUndefined JUndefined JUndefined) []))
   \<and> length (fst (publish_submit_action example_host example_world (rejecting_api UploadBundle)
       (play_opts JUndefined JUndefined JUndefined) [])) = 3
   \<and> steps (fst (lite_publish_submit example_host example_world example_fetch 1700000000
       (lite_opts JUndefined JUndefined JUndefined) [])) = publish_order
   \<and> isl (snd (lite_publish_submit example_host example_world forgetful_fetch 1700000000
       (lite_opts JUndefined JUndefined JUndefined) []))
   \<and> length (fst (lite_publish_submit example_host example_world forgetful_fetch 1700000000
       (lite_opts JUndefined JUndefined JUndefined) [])) = 2"
proof -
  let ?po = "play_opts JUndefined JUndefined JUndefined"
  let ?lo = "lite_opts JUndefined JUndefined JUndefined"
  let ?rem = "\<lambda>f tr c. snd (jsonRequest example_host f c tr)"
  note ok = publish_flow_sequential [of example_api example_host example_world ?po
      example_fetch 1700000000 ?lo, unfolded sequential_def]
  note bad = publish_flow_sequential [of "rejecting_api UploadBundle" example_host example_world ?po
      forgetful_fetch 1700000000 ?lo, unfolded sequential_def]
  have s1: "\<not> isl (snd (publish_submit_action example_host example_world example_api ?po []))"
    by code_simp
  have s2: "\<not> isl (snd (lite_publish_submit example_host example_world example_fetch
      1700000000 ?lo []))"
    by code_simp
  have f1: "fails_at (rejecting_api UploadBundle)
      (fst (publish_submit_action example_host example_world (rejecting_api UploadBundle) ?po [])) 2"
    by code_simp
  have l1: "2 < length (fst (publish_submit_action example_host example_world
      (rejecting_api UploadBundle) ?po []))"
    by code_simp
  have f2: "fails_at (?rem forgetful_fetch)
      (fst (lite_publish_submit example_host example_world forgetful_fetch 1700000000 ?lo [])) 1"
    by code_simp
  have l2: "1 < length (fst (lite_publish_submit example_host example_world forgetful_fetch
      1700000000 ?lo []))"
    by code_simp
  from ok s1 have a: "steps (fst (publish_submit_action example_host example_world example_api
       ?po [])) = publish_order"
    by simp
  from ok s2 have b: "steps (fst (lite_publish_submit example_host example_world example_fetch
       1700000000 ?lo [])) = publish_order"
    by simp
  from bad [THEN conjunct1, THEN conjunct2, THEN conjunct2, rule_format, OF l1 f1]
  have c: "isl (snd (publish_submit_action example_host example_world (rejecting_api UploadBundle)
       ?po []))"
    and c': "length (fst (publish_submit_action example_host example_world
       (rejecting_api UploadBundle) ?po [])) = 3"
    by simp_all
  from bad [THEN conjunct2, THEN conjunct2, THEN conjunct2, rule_format, OF l2 f2]
  have d: "isl (snd (lite_publish_submit example_host example_world forgetful_fetch 1700000000
       ?lo []))"
    and d': "length (fst (lite_publish_submit example_host example_world forgetful_fetch
       1700000000 ?lo [])) = 2"
    by simp_all
  show ?thesis
    using a c c' b d d' by - (intro conjI; assumption)
qed

section \<open>The release sent: properties\<close>










section \<open>The credential loader: properties\<close>







section \<open>Token exchange: properties\<close>

lemma exchange_after_2xx:
  assumes "fst (exchangeAccessToken h fetch now sa []) = [OAuthToken a]"
    and "fetch [] (OAuthToken a) = Inr res" and "ok res"
  shows "snd (exchangeAccessToken h fetch now sa [])
      = (case JSON_parse h (body_text res) of None \<Rightarrow> Inl SyntaxError | Some body \<Rightarrow> Inr body)"
  using assms
  by (auto simp: exchangeAccessToken_def io_bind_def io_lift_def io_call_def io_throw_def
      io_pure_def split: sum.splits option.splits)

lemma exchange_trace:
  "fst (exchangeAccessToken h fetch now sa tr) = tr \<or>
   (\<exists>a. fst (exchangeAccessToken h fetch now sa tr) = tr @ [OAuthToken a])"
  by (auto simp: exchangeAccessToken_def io_bind_def io_lift_def io_call_def io_throw_def
      io_pure_def split: sum.splits option.splits)

lemma obtain_after_2xx:
  assumes "fst (obtainAccessToken h w fetch now opts []) = [OAuthToken a]"
    and "fetch [] (OAuthToken a) = Inr res" and "ok res"
  shows "snd (obtainAccessToken h w fetch now opts [])
      = (case JSON_parse h (body_text res) of
           None \<Rightarrow> Inl SyntaxError
         | Some body \<Rightarrow>
             (case js_get body ''access_token'' of
                Inl e \<Rightarrow> Inl e
              | Inr v \<Rightarrow> if truthy v then Inr (body, v)
                         else Inl (Error ''could not obtain access token'')))"
proof (cases "readServiceAccount h w opts")
  case (Inl e)
  with assms(1) show ?thesis
    by (simp add: obtainAccessToken_def io_bind_def io_lift_def)
next
  case (Inr sa)
  with assms(1) have f: "fst (exchangeAccessToken h fetch now sa []) = [OAuthToken a]"
    by (auto simp: obtainAccessToken_def io_bind_def io_lift_def io_throw_def io_pure_def
        split: sum.splits prod.splits if_splits)
  obtain tr r where e: "exchangeAccessToken h fetch now sa [] = (tr, r)"
    by (cases "exchangeAccessToken h fetch now sa []")
  from exchange_after_2xx [OF f assms(2,3)] e
  have "r = (case JSON_parse h (body_text res) of None \<Rightarrow> Inl SyntaxError | Some body \<Rightarrow> Inr body)"
    by simp
  with Inr e show ?thesis
    by (auto simp: obtainAccessToken_def io_bind_def io_lift_def io_throw_def io_pure_def
        split: sum.splits option.splits)
qed

lemma issue_after_2xx:
  assumes "fst (issueInstallationToken h fetch now appId inst pem []) = [InstallationTokens inst jwt]"
    and "fetch [] (InstallationTokens inst jwt) = Inr res" and "ok res"
  shows "snd (issueInstallationToken h fetch now appId inst pem [])
      = (let body = (case JSON_parse h (body_text res) of None \<Rightarrow> JObj [] | Some b \<Rightarrow> b)
         in case js_get body ''token'' of
              Inl e \<Rightarrow> Inl e
            | Inr v \<Rightarrow> if truthy v then Inr body else Inl (CliError TokenResponseAbnormal))"
  using assms
  by (auto simp: issueInstallationToken_def io_bind_def io_lift_def io_call_def io_throw_def
      io_pure_def Let_def split: sum.splits)

text \<open>
  C6, as the code has it. When the token request was made and answered with a 2xx
  response: the OAuth2 path of the dependency-free CLI raises an error exactly when
  the body is no JSON or has no truthy \<^verbatim>\<open>access_token\<close> (the field is absent, or
  is \<^verbatim>\<open>null\<close>, the empty string, zero or \<^verbatim>\<open>false\<close>), and otherwise hands the
  field's value on together with the body; the installation-token path of the
  GitHub wrapper, which reads a body that is no JSON as the empty object, raises an
  error exactly when the body has no truthy \<^verbatim>\<open>token\<close>, and otherwise returns the
  body, whose \<^verbatim>\<open>token\<close> the caller reads.
\<close>

theorem token_exchange_field:
  "(fst (obtainAccessToken h w fetch now opts []) = [OAuthToken a]
      \<and> fetch [] (OAuthToken a) = Inr res \<and> ok res
    \<longrightarrow> (isl (snd (obtainAccessToken h w fetch now opts []))
          = (\<not> (\<exists>body. JSON_parse h (body_text res) = Some body \<and> has_field body ''access_token'')))
        \<and> (\<forall>body. JSON_parse h (body_text res) = Some body \<and> has_field body ''access_token''
            \<longrightarrow> (\<exists>v. js_get body ''access_token'' = Inr v \<and> truthy v
                  \<and> snd (obtainAccessToken h w fetch now opts []) = Inr (body, v))))
   \<and> (fst (issueInstallationToken h fetch' now appId inst pem []) = [InstallationTokens inst jwt]
      \<and> fetch' [] (InstallationTokens inst jwt) = Inr res' \<and> ok res'
    \<longrightarrow> (isl (snd (issueInstallationToken h fetch' now appId inst pem []))
          = (\<not> has_field (case JSON_parse h (body_text res') of None \<Rightarrow> JObj [] | Some b \<Rightarrow> b)
                ''token''))
        \<and> (has_field (case JSON_parse h (body_text res') of None \<Rightarrow> JObj [] | Some b \<Rightarrow> b)
              ''token''
            \<longrightarrow> snd (issueInstallationToken h fetch' now appId inst pem [])
                = Inr (case JSON_parse h (body_text res') of None \<Rightarrow> JObj [] | Some b \<Rightarrow> b)))"
proof (intro conjI impI; elim conjE)
  assume a: "fst (obtainAccessToken h w fetch now opts []) = [OAuthToken a]"
    "fetch [] (OAuthToken a) = Inr res" "ok res"
  note r = obtain_after_2xx [OF a]
  show "isl (snd (obtainAccessToken h w fetch now opts []))
          = (\<not> (\<exists>body. JSON_parse h (body_text res) = Some body \<and> has_field body ''access_token''))"
    unfolding r by (auto simp: has_field_def split: option.splits sum.splits)
  show "\<forall>body. JSON_parse h (body_text res) = Some body \<and> has_field body ''access_token''
            \<longrightarrow> (\<exists>v. js_get body ''access_token'' = Inr v \<and> truthy v
                  \<and> snd (obtainAccessToken h w fetch now opts []) = Inr (body, v))"
    unfolding r by (auto simp: has_field_def split: option.splits sum.splits)
next
  assume a: "fst (issueInstallationToken h fetch' now appId inst pem []) = [InstallationTokens inst jwt]"
    "fetch' [] (InstallationTokens inst jwt) = Inr res'" "ok res'"
  note r = issue_after_2xx [OF a]
  show "isl (snd (issueInstallationToken h fetch' now appId inst pem []))
          = (\<not> has_field (case JSON_parse h (body_text res') of None \<Rightarrow> JObj [] | Some b \<Rightarrow> b)
                ''token'')"
    unfolding r by (auto simp: has_field_def Let_def split: sum.splits)
  show "snd (issueInstallationToken h fetch' now appId inst pem [])
                = Inr (case JSON_parse h (body_text res') of None \<Rightarrow> JObj [] | Some b \<Rightarrow> b)"
    if "has_field (case JSON_parse h (body_text res') of None \<Rightarrow> JObj [] | Some b \<Rightarrow> b) ''token''"
    using that unfolding r by (auto simp: has_field_def Let_def split: sum.splits)
qed

theorem token_exchange_field_witness:
  "snd (obtainAccessToken example_host example_world example_fetch 1700000000 no_options [])
     = Inr (JObj [(''access_token'', JStr ''ya29.token'')], JStr ''ya29.token'')
   \<and> snd (issueInstallationToken example_host example_fetch 1700000000 ''2913321'' ''111456446''
        ''PEM'' [])
     = Inr (JObj [(''token'', JStr ''ghs_0123456789abcdef'')])
   \<and> isl (snd (obtainAccessToken example_host example_world
        (\<lambda>tr c. Inr (example_reply ''{}'')) 1700000000 no_options []))
   \<and> isl (snd (issueInstallationToken example_host (\<lambda>tr c. Inr (example_reply ''{}''))
        1700000000 ''2913321'' ''111456446'' ''PEM'' []))"
proof -
  let ?res = "example_reply ''{\"access_token\":\"ya29.token\"}''"
  let ?res' = "example_reply ''{\"token\":\"ghs_0123456789abcdef\"}''"
  let ?none = "(\<lambda>tr c. Inr (example_reply ''{}'')) :: response remote"
  have f1: "fst (obtainAccessToken example_host example_world example_fetch 1700000000 no_options [])
      = [OAuthToken example_assertion]"
    by code_simp
  have f2: "fst (issueInstallationToken example_host example_fetch 1700000000 ''2913321''
      ''111456446'' ''PEM'' []) = [InstallationTokens ''111456446'' example_assertion]"
    by code_simp
  have f3: "fst (obtainAccessToken example_host example_world ?none 1700000000 no_options [])
      = [OAuthToken example_assertion]"
    by code_simp
  have f4: "fst (issueInstallationToken example_host ?none 1700000000 ''2913321''
      ''111456446'' ''PEM'' []) = [InstallationTokens ''111456446'' example_assertion]"
    by code_simp
  have g1: "example_fetch [] (OAuthToken example_assertion) = Inr ?res \<and> ok ?res"
    by (simp add: example_fetch_def example_reply_def)
  have g2: "example_fetch [] (InstallationTokens ''111456446'' example_assertion) = Inr ?res'
      \<and> ok ?res'"
    by (simp add: example_fetch_def example_reply_def)
  have g3: "ok (example_reply ''{}'')"
    by (simp add: example_reply_def)
  have p1: "JSON_parse example_host (body_text ?res) = Some (JObj [(''access_token'', JStr ''ya29.token'')])"
    by code_simp
  have p2: "JSON_parse example_host (body_text ?res') = Some (JObj [(''token'', JStr ''ghs_0123456789abcdef'')])"
    by code_simp
  have p3: "JSON_parse example_host (body_text (example_reply ''{}'')) = Some (JObj [])"
    by code_simp
  have h1: "has_field (JObj [(''access_token'', JStr ''ya29.token'')]) ''access_token''"
    and h2: "has_field (JObj [(''token'', JStr ''ghs_0123456789abcdef'')]) ''token''"
    and h3: "\<not> has_field (JObj []) k" for k
    by (simp_all add: has_field_def)
  note t = token_exchange_field [of example_host example_world example_fetch 1700000000 no_options
      example_assertion ?res example_fetch "''2913321''" "''111456446''" "''PEM''"
      example_assertion ?res']
  note t' = token_exchange_field [of example_host example_world ?none 1700000000 no_options
      example_assertion "example_reply ''{}''" ?none "''2913321''" "''111456446''" "''PEM''"
      example_assertion "example_reply ''{}''"]
  from t [THEN conjunct1] f1 g1 p1 h1
  have a: "snd (obtainAccessToken example_host example_world example_fetch 1700000000 no_options [])
     = Inr (JObj [(''access_token'', JStr ''ya29.token'')], JStr ''ya29.token'')"
    by simp
  from t [THEN conjunct2] f2 g2 p2 h2
  have b: "snd (issueInstallationToken example_host example_fetch 1700000000 ''2913321''
        ''111456446'' ''PEM'' [])
     = Inr (JObj [(''token'', JStr ''ghs_0123456789abcdef'')])"
    by simp
  from t' [THEN conjunct1] f3 g3 p3 h3
  have c: "isl (snd (obtainAccessToken example_host example_world ?none 1700000000 no_options []))"
    by simp
  from t' [THEN conjunct2] f4 g3 p3 h3
  have d: "isl (snd (issueInstallationToken example_host ?none 1700000000 ''2913321''
        ''111456446'' ''PEM'' []))"
    by simp
  show ?thesis
    using a b c d by - (intro conjI; assumption)
qed

text \<open>A 2xx body in which the field is present and empty is an error on both
  paths, though the body does not lack the field.\<close>

theorem token_field_counterexample:
  "empty_token_fetch [] (OAuthToken example_assertion) = Inr (example_reply ''{\"access_token\":\"\"}'')
   \<and> ok (example_reply ''{\"access_token\":\"\"}'')
   \<and> JSON_parse example_host ''{\"access_token\":\"\"}'' = Some (JObj [(''access_token'', JStr [])])
   \<and> map_of [(''access_token'', JStr [])] ''access_token'' = Some (JStr [])
   \<and> obtainAccessToken example_host example_world empty_token_fetch 1700000000 no_options []
     = ([OAuthToken example_assertion], Inl (Error ''could not obtain access token''))
   \<and> JSON_parse example_host ''{\"token\":\"\"}'' = Some (JObj [(''token'', JStr [])])
   \<and> map_of [(''token'', JStr [])] ''token'' = Some (JStr [])
   \<and> issueInstallationToken example_host empty_token_fetch 1700000000 ''2913321'' ''111456446''
        ''PEM'' []
     = ([InstallationTokens ''111456446'' example_assertion], Inl (CliError TokenResponseAbnormal))"
proof -
  have 1: "empty_token_fetch [] (OAuthToken example_assertion)
      = Inr (example_reply ''{\"access_token\":\"\"}'')"
    by (simp add: empty_token_fetch_def)
  have 2: "ok (example_reply ''{\"access_token\":\"\"}'')"
    by (simp add: example_reply_def)
  have 3: "JSON_parse example_host ''{\"access_token\":\"\"}'' = Some (JObj [(''access_token'', JStr [])])"
    by code_simp
  have 4: "map_of [(''access_token'', JStr [])] ''access_token'' = Some (JStr [])"
    by simp
  have 5: "obtainAccessToken example_host example_world empty_token_fetch 1700000000 no_options []
     = ([OAuthToken example_assertion], Inl (Error ''could not obtain access token''))"
    by code_simp
  have 6: "JSON_parse example_host ''{\"token\":\"\"}'' = Some (JObj [(''token'', JStr [])])"
    by code_simp
  have 7: "map_of [(''token'', JStr [])] ''token'' = Some (JStr [])"
    by simp
  have 8: "issueInstallationToken example_host empty_token_fetch 1700000000 ''2913321''
        ''111456446'' ''PEM'' []
     = ([InstallationTokens ''111456446'' example_assertion], Inl (CliError TokenResponseAbnormal))"
    by code_simp
  show ?thesis
    using 1 2 3 4 5 6 7 8 by - (intro conjI; assumption)
qed

section \<open>The JWT builders: properties\<close>

text \<open>The base64url text of a byte sequence is the alphabet's characters for its
  six-bit groups, and decodes to the sequence.\<close>

lemma base64_sextets: "base64 bs = map b64_char (sextets bs) @ padding bs"
  by (induction bs rule: sextets.induct) simp_all

lemma byte_bound: "unat (a :: byte) < 256"
  using unsigned_less [of a, where 'a = nat] by simp

lemma sextets_bound: "i \<in> set (sextets bs) \<Longrightarrow> i < 64"
proof (induction bs arbitrary: i rule: sextets.induct)
  case 1 then show ?case by simp
next
  case (2 a)
  then show ?case using byte_bound [of a] by auto
next
  case (3 a b)
  then show ?case using byte_bound [of a] byte_bound [of b] by auto
next
  case (4 a b c rest)
  then show ?case using byte_bound [of a] byte_bound [of b] byte_bound [of c] by auto
qed

lemma padding_eq: "padding bs = replicate (length (padding bs)) CHR ''=''"
  by (induction bs rule: padding.induct) simp_all

lemma alphabet_length: "length b64_alphabet = 64" "length b64url_alphabet = 64"
  by (simp_all add: b64_alphabet_def b64url_alphabet_def)

lemma replace_url: "replace_char CHR ''/'' CHR ''_'' (replace_char CHR ''+'' CHR ''-'' s) = map url_of s"
  by (induction s) (simp_all add: replace_char_def url_of_def)

lemma alphabet_url: "map url_of b64_alphabet = b64url_alphabet"
  by code_simp

lemma url_char:
  assumes "i < 64"
  shows "url_of (b64_char i) = b64url_alphabet ! i"
proof -
  from assms have "map url_of b64_alphabet ! i = url_of (b64_alphabet ! i)"
    by (simp add: alphabet_length)
  then show ?thesis by (simp add: alphabet_url b64_char_def)
qed

lemma url_map:
  assumes "\<forall>i \<in> set xs. i < 64"
  shows "map url_of (map b64_char xs) = map (\<lambda>i. b64url_alphabet ! i) xs"
  using assms by (induction xs) (simp_all add: url_char)

lemma url_alphabet_free:
  "CHR ''='' \<notin> set b64url_alphabet" "CHR ''.'' \<notin> set b64url_alphabet"
  "CHR ''+'' \<notin> set b64url_alphabet" "CHR ''/'' \<notin> set b64url_alphabet"
  by (simp_all add: b64url_alphabet_def)

lemma strip_trailing_replicate:
  assumes "a \<notin> set xs"
  shows "strip_trailing a (xs @ replicate n a) = xs"
proof -
  have "dropWhile (\<lambda>c. c = a) (replicate n a @ rev xs) = dropWhile (\<lambda>c. c = a) (rev xs)"
    by (induction n) simp_all
  also have "\<dots> = rev xs"
    using assms by (cases "rev xs") auto
  finally show ?thesis by (simp add: strip_trailing_def)
qed

lemma padding_url: "map url_of (padding bs) = padding bs"
  by (induction bs rule: padding.induct) (simp_all add: url_of_def)

lemma toBase64Url_sextets: "toBase64Url bs = map (\<lambda>i. b64url_alphabet ! i) (sextets bs)"
proof -
  have b: "\<forall>i \<in> set (sextets bs). i < 64"
    by (simp add: sextets_bound)
  have "map url_of (base64 bs) = map url_of (map b64_char (sextets bs)) @ map url_of (padding bs)"
    by (simp only: base64_sextets map_append)
  also have "\<dots> = map (\<lambda>i. b64url_alphabet ! i) (sextets bs) @ padding bs"
    by (simp only: url_map [OF b] padding_url)
  also have "\<dots> = map (\<lambda>i. b64url_alphabet ! i) (sextets bs)
      @ replicate (length (padding bs)) CHR ''=''"
    using padding_eq [of bs] by simp
  finally have m: "map url_of (base64 bs)
      = map (\<lambda>i. b64url_alphabet ! i) (sextets bs) @ replicate (length (padding bs)) CHR ''=''" .
  have "CHR ''='' \<notin> set (map (\<lambda>i. b64url_alphabet ! i) (sextets bs))"
  proof
    assume "CHR ''='' \<in> set (map (\<lambda>i. b64url_alphabet ! i) (sextets bs))"
    then obtain i where "i \<in> set (sextets bs)" "b64url_alphabet ! i = CHR ''=''" by auto
    with sextets_bound [of i bs] have "CHR ''='' \<in> set b64url_alphabet"
      by (metis alphabet_length(2) nth_mem)
    then show False by (simp add: url_alphabet_free)
  qed
  then have "strip_trailing CHR ''=''
      (map (\<lambda>i. b64url_alphabet ! i) (sextets bs) @ replicate (length (padding bs)) CHR ''='')
      = map (\<lambda>i. b64url_alphabet ! i) (sextets bs)"
    by (rule strip_trailing_replicate)
  then show ?thesis
    by (simp only: toBase64Url_def replace_url m)
qed

lemma toBase64Url_alphabet: "set (toBase64Url bs) \<subseteq> set b64url_alphabet"
proof
  fix c assume "c \<in> set (toBase64Url bs)"
  then obtain i where "i \<in> set (sextets bs)" "c = b64url_alphabet ! i"
    by (auto simp: toBase64Url_sextets)
  with sextets_bound [of i bs] show "c \<in> set b64url_alphabet"
    by (simp add: alphabet_length)
qed

lemma toBase64Url_nonempty: "bs \<noteq> [] \<Longrightarrow> toBase64Url bs \<noteq> []"
  by (cases bs rule: sextets.cases) (simp_all add: toBase64Url_sextets)

lemma index_of_nth: "distinct xs \<Longrightarrow> i < length xs \<Longrightarrow> index_of (xs ! i) xs = Some i"
proof (induction xs arbitrary: i)
  case Nil then show ?case by simp
next
  case (Cons x xs)
  then show ?case by (cases i) auto
qed

lemma distinct_url_alphabet: "distinct b64url_alphabet"
  by code_simp

lemma those_index:
  assumes "\<forall>i \<in> set xs. i < 64"
  shows "those_list (map (\<lambda>c. index_of c b64url_alphabet) (map (\<lambda>i. b64url_alphabet ! i) xs)) = Some xs"
  using assms
proof (induction xs)
  case Nil
  show ?case by simp
next
  case (Cons x xs)
  then have "index_of (b64url_alphabet ! x) b64url_alphabet = Some x"
    by (simp add: index_of_nth distinct_url_alphabet alphabet_length)
  with Cons show ?case by simp
qed

lemma div_mod_low:
  fixes x y n :: nat
  assumes "y < n"
  shows "(x * n + y) div n = x" and "(x * n + y) mod n = y"
  using assms by simp_all

lemma byte_high: "unat (b :: byte) div 16 < 16" "unat (b :: byte) div 64 < 4"
  using byte_bound [of b] by (simp_all add: less_mult_imp_div_less)

lemma byte_parts:
  fixes a b c :: byte
  shows "word_of_nat (unat a div 4 * 4 + ((unat a mod 4) * 16 + unat b div 16) div 16) = a"
    and "word_of_nat (((unat a mod 4) * 16 + unat b div 16) mod 16 * 16
            + ((unat b mod 16) * 4 + unat c div 64) div 4) = b"
    and "word_of_nat (((unat b mod 16) * 4 + unat c div 64) mod 4 * 64 + unat c mod 64) = c"
    and "word_of_nat (unat a div 4 * 4 + ((unat a mod 4) * 16) div 16) = a"
    and "word_of_nat (((unat a mod 4) * 16 + unat b div 16) mod 16 * 16
            + ((unat b mod 16) * 4) div 4) = b"
  by (simp_all add: div_mod_low byte_high)

lemma bytes_of_sextets_inverse: "bytes_of_sextets (sextets bs) = Some bs"
  by (induction bs rule: sextets.induct) (simp_all only: sextets.simps bytes_of_sextets.simps
      append_Cons append_Nil byte_parts option.map list.simps)

lemma base64url_roundtrip: "base64url_decode (toBase64Url bs) = Some bs"
proof -
  have "\<forall>i \<in> set (sextets bs). i < 64"
    by (simp add: sextets_bound)
  from those_index [OF this] show ?thesis
    by (simp only: base64url_decode_def toBase64Url_sextets bind.bind_lunit
        bytes_of_sextets_inverse)
qed

lemma js_split_last: "c \<notin> set a \<Longrightarrow> js_split c a = [a]"
  by (induction a) (auto split: list.splits)

lemma js_split_append: "c \<notin> set a \<Longrightarrow> js_split c (a @ c # rest) = a # js_split c rest"
  by (induction a) (auto split: list.splits)

lemma utf8_char_nonempty: "utf8_char c \<noteq> []"
  by (simp add: utf8_char_def Let_def)

lemma utf8_encode_nonempty: "s \<noteq> [] \<Longrightarrow> utf8_encode s \<noteq> []"
  by (cases s) (simp_all add: utf8_encode_def utf8_char_nonempty)

lemma of_char_bound: "(of_char c :: nat) < 256"
  using of_char_mod_256 [of c, where 'a = nat] mod_less_divisor [of 256 "of_char c :: nat"]
  by (metis zero_less_numeral)

lemma byte_of_nat_inj: "n < 256 \<Longrightarrow> m < 256 \<Longrightarrow> (word_of_nat n :: byte) = word_of_nat m \<Longrightarrow> n = m"
  by (simp add: word_of_nat_eq_iff take_bit_nat_eq_self)

lemma utf8_char_inj:
  assumes "utf8_char c @ xs = utf8_char d @ ys"
  shows "c = d \<and> xs = ys"
proof -
  let ?n = "of_char c :: nat" and ?m = "of_char d :: nat"
  have b: "?n < 256" "?m < 256" by (rule of_char_bound)+
  have hi: "192 + k div 64 < 256" "128 + k mod 64 < 256" if "k < 256" for k :: nat
    using that by (simp_all add: less_mult_imp_div_less)
  have "?n = ?m \<and> xs = ys"
  proof (cases "?n < 128")
    case n: True
    show ?thesis
    proof (cases "?m < 128")
      case True
      with n assms b show ?thesis
        by (auto simp: utf8_char_def Let_def dest: byte_of_nat_inj [rotated 2])
    next
      case False
      with n assms have "(word_of_nat ?n :: byte) = word_of_nat (192 + ?m div 64)"
        by (simp add: utf8_char_def Let_def)
      from byte_of_nat_inj [OF b(1) hi(1) [OF b(2)] this] n show ?thesis by simp
    qed
  next
    case n: False
    show ?thesis
    proof (cases "?m < 128")
      case True
      with n assms have "(word_of_nat (192 + ?n div 64) :: byte) = word_of_nat ?m"
        by (simp add: utf8_char_def Let_def)
      from byte_of_nat_inj [OF hi(1) [OF b(1)] b(2) this] True show ?thesis by simp
    next
      case False
      with n assms have e: "(word_of_nat (192 + ?n div 64) :: byte) = word_of_nat (192 + ?m div 64)"
        "(word_of_nat (128 + ?n mod 64) :: byte) = word_of_nat (128 + ?m mod 64)" "xs = ys"
        by (simp_all add: utf8_char_def Let_def)
      from byte_of_nat_inj [OF hi(1) [OF b(1)] hi(1) [OF b(2)] e(1)]
        byte_of_nat_inj [OF hi(2) [OF b(1)] hi(2) [OF b(2)] e(2)]
      have "?n div 64 = ?m div 64" "?n mod 64 = ?m mod 64" by simp_all
      then have "?n = ?m" by (metis div_mult_mod_eq)
      with e(3) show ?thesis by simp
    qed
  qed
  then show ?thesis by simp
qed

lemma utf8_encode_inj: "utf8_encode s = utf8_encode t \<Longrightarrow> s = t"
proof (induction s arbitrary: t)
  case Nil
  then show ?case
    by (cases t) (simp_all add: utf8_encode_def utf8_char_nonempty)
next
  case (Cons c s)
  show ?case
  proof (cases t)
    case Nil
    with Cons.prems show ?thesis by (simp add: utf8_encode_def utf8_char_nonempty)
  next
    case (Cons d t')
    with Cons.prems have "utf8_char c @ utf8_encode s = utf8_char d @ utf8_encode t'"
      by (simp add: utf8_encode_def)
    from utf8_char_inj [OF this] Cons.IH [of t'] Cons show ?thesis by simp
  qed
qed

lemma signJwt_buildJwt:
  "signJwt h now appId pem =
     buildJwt h (JObj [(''alg'', JStr ''RS256''), (''typ'', JStr ''JWT'')])
       (JObj [(''iat'', JNum (Fin (of_int (now - 60)))), (''exp'', JNum (Fin (of_int (now + 540)))),
              (''iss'', JNum (js_Number h (JStr appId)))]) pem"
  by (simp add: signJwt_def buildJwt_def Let_def)

lemma segments_split:
  assumes "set a \<subseteq> set b64url_alphabet" "set b \<subseteq> set b64url_alphabet"
    "set c \<subseteq> set b64url_alphabet"
  shows "js_split CHR ''.'' (a @ ''.'' @ b @ ''.'' @ c) = [a, b, c]"
proof -
  from assms url_alphabet_free(2) have "CHR ''.'' \<notin> set a" "CHR ''.'' \<notin> set b" "CHR ''.'' \<notin> set c"
    by blast+
  then show ?thesis
    by (simp add: js_split_append js_split_last)
qed

text \<open>
  C5. For every header and claims that \<^verbatim>\<open>JSON.stringify\<close> serializes to a non-empty
  text (as it does every object), and every key with which the signing succeeds
  with a non-empty signature, \<^verbatim>\<open>buildJwt\<close> returns a token that \<^verbatim>\<open>split(".")\<close>
  cuts into exactly three segments; each is non-empty and made of the base64url
  alphabet, so that \<^verbatim>\<open>+\<close>, \<^verbatim>\<open>/\<close> and \<^verbatim>\<open>=\<close> do not occur; the first segment
  decodes to the bytes of the header's JSON text, which are the bytes of no other
  text; the second decodes to the claims' text and the third to the signature.
  \<^verbatim>\<open>signJwt\<close> of the GitHub wrapper is \<^verbatim>\<open>buildJwt\<close> at its fixed header and its
  claims, so the same holds of it.
\<close>

theorem jwt_three_segments:
  assumes "JSON_stringify h header = Some headerJson" and "headerJson \<noteq> []"
    and "JSON_stringify h payload = Some payloadJson" and "payloadJson \<noteq> []"
    and "rsa_sha256_sign h pem
           (toBase64Url (utf8_encode headerJson) @ ''.'' @ toBase64Url (utf8_encode payloadJson))
         = Some signature"
    and "signature \<noteq> []"
  shows "\<exists>token s1 s2 s3.
           buildJwt h header payload pem = Inr token
         \<and> js_split CHR ''.'' token = [s1, s2, s3]
         \<and> s1 \<noteq> [] \<and> s2 \<noteq> [] \<and> s3 \<noteq> []
         \<and> set s1 \<subseteq> set b64url_alphabet \<and> set s2 \<subseteq> set b64url_alphabet
         \<and> set s3 \<subseteq> set b64url_alphabet
         \<and> CHR ''+'' \<notin> set token \<and> CHR ''/'' \<notin> set token \<and> CHR ''='' \<notin> set token
         \<and> base64url_decode s1 = Some (utf8_encode headerJson)
         \<and> (\<forall>t. utf8_encode t = utf8_encode headerJson \<longrightarrow> t = headerJson)
         \<and> base64url_decode s2 = Some (utf8_encode payloadJson)
         \<and> base64url_decode s3 = Some signature
         \<and> signJwt h now appId pem =
             buildJwt h (JObj [(''alg'', JStr ''RS256''), (''typ'', JStr ''JWT'')])
               (JObj [(''iat'', JNum (Fin (of_int (now - 60)))),
                      (''exp'', JNum (Fin (of_int (now + 540)))),
                      (''iss'', JNum (js_Number h (JStr appId)))]) pem"
proof -
  let ?s1 = "toBase64Url (utf8_encode headerJson)"
  let ?s2 = "toBase64Url (utf8_encode payloadJson)"
  let ?s3 = "toBase64Url signature"
  let ?token = "?s1 @ ''.'' @ ?s2 @ ''.'' @ ?s3"
  have b: "buildJwt h header payload pem = Inr ?token"
    using assms(1,3,5) by (simp add: buildJwt_def Let_def)
  have a: "set ?s1 \<subseteq> set b64url_alphabet" "set ?s2 \<subseteq> set b64url_alphabet"
    "set ?s3 \<subseteq> set b64url_alphabet"
    by (rule toBase64Url_alphabet)+
  have sp: "js_split CHR ''.'' ?token = [?s1, ?s2, ?s3]"
    by (rule segments_split [OF a])
  have ne: "?s1 \<noteq> []" "?s2 \<noteq> []" "?s3 \<noteq> []"
    using assms(2,4,6) by (simp_all add: toBase64Url_nonempty utf8_encode_nonempty)
  have "set ?token \<subseteq> set b64url_alphabet \<union> {CHR ''.''}"
    using a by auto
  with url_alphabet_free
  have fr: "CHR ''+'' \<notin> set ?token" "CHR ''/'' \<notin> set ?token" "CHR ''='' \<notin> set ?token"
    by auto
  have inj: "\<forall>t. utf8_encode t = utf8_encode headerJson \<longrightarrow> t = headerJson"
    by (simp add: utf8_encode_inj)
  from b sp ne a fr inj signJwt_buildJwt [of h now appId pem] show ?thesis
    by (intro exI [of _ ?token] exI [of _ ?s1] exI [of _ ?s2] exI [of _ ?s3])
      (simp only: base64url_roundtrip simp_thms)
qed

theorem jwt_three_segments_witness:
  "buildJwt example_host example_header (JObj []) ''PEM'' = Inr example_assertion
   \<and> js_split CHR ''.'' example_assertion
       = [''eyJhbGciOiJSUzI1NiIsInR5cCI6IkpXVCJ9'', ''e30'', ''AQID'']
   \<and> base64url_decode ''eyJhbGciOiJSUzI1NiIsInR5cCI6IkpXVCJ9''
       = Some (utf8_encode ''{\"alg\":\"RS256\",\"typ\":\"JWT\"}'')
   \<and> signJwt example_host 1700000000 ''2913321'' ''PEM'' = Inr example_assertion"
proof -
  let ?hj = "''{\"alg\":\"RS256\",\"typ\":\"JWT\"}''"
  have 1: "JSON_stringify example_host example_header = Some ?hj"
    by (simp add: example_host_def)
  have 2: "JSON_stringify example_host (JObj []) = Some ''{}''"
    by (simp add: example_host_def example_header_def)
  have 3: "rsa_sha256_sign example_host ''PEM''
           (toBase64Url (utf8_encode ?hj) @ ''.'' @ toBase64Url (utf8_encode ''{}''))
         = Some [1, 2, 3]"
    by (simp add: example_host_def)
  have 4: "?hj \<noteq> []" "''{}'' \<noteq> []" "[1, 2, 3 :: byte] \<noteq> []"
    by simp_all
  have b: "buildJwt example_host example_header (JObj []) ''PEM'' = Inr example_assertion"
    by code_simp
  have sp: "js_split CHR ''.'' example_assertion
       = [''eyJhbGciOiJSUzI1NiIsInR5cCI6IkpXVCJ9'', ''e30'', ''AQID'']"
    by code_simp
  have sj: "signJwt example_host 1700000000 ''2913321'' ''PEM'' = Inr example_assertion"
    by code_simp
  from jwt_three_segments [OF 1 4(1) 2 4(2) 3 4(3)]
  obtain token s1 s2 s3 where t: "buildJwt example_host example_header (JObj []) ''PEM'' = Inr token"
    "js_split CHR ''.'' token = [s1, s2, s3]"
    "base64url_decode s1 = Some (utf8_encode ?hj)"
    by blast
  from t(1) b have "token = example_assertion" by simp
  with t(2) sp have "s1 = ''eyJhbGciOiJSUzI1NiIsInR5cCI6IkpXVCJ9''" by simp
  with t(3) have d: "base64url_decode ''eyJhbGciOiJSUzI1NiIsInR5cCI6IkpXVCJ9''
       = Some (utf8_encode ?hj)"
    by simp
  show ?thesis
    using b sp d sj by - (intro conjI; assumption)
qed

end
